theory Spec2Isabelle
  imports Complex_Main "HOL-Library.FSet"
begin

section \<open>Exceptions\<close>

text \<open>
  Every \<^verbatim>\<open>raise\<close> of the Python sources is a value of this type. A constructor that
  raises returns \<open>Inl e\<close> (no object exists); a property setter returns the pair of the
  exception it raised, if any, and the object as the setter left it, since a Python object
  keeps every attribute written before the \<^verbatim>\<open>raise\<close>.
\<close>

datatype error =
    QiskitError string
  | NotImplementedError string
  | TypeError string
  | AttributeError string
  | ValueError string
  | Exception string

section \<open>Arrays\<close>

text \<open>
  The NumPy arrays of the sources: a rank-1 complex array is a list, a rank-2 array a list of
  rows, a rank-3 array (a stack of operators) a list of matrices. Entries are exact complex
  numbers: rounding of the floating-point backend is not part of the model.
  \<open>matmul\<close> is \<^verbatim>\<open>A @ B\<close>, \<open>mat_vec\<close> is \<^verbatim>\<open>np.dot(A, v)\<close> for a rank-1 \<open>v\<close>,
  \<open>mat_add\<close> and \<open>mat_sub\<close> are \<^verbatim>\<open>+\<close> and \<^verbatim>\<open>-\<close> on arrays of one shape.
\<close>

type_synonym cvec = "complex list"
type_synonym cmat = "complex list list"

definition nrows :: "cmat \<Rightarrow> nat" where
  "nrows A = length A"

definition ncols :: "cmat \<Rightarrow> nat" where
  "ncols A = (case A of [] \<Rightarrow> 0 | row # _ \<Rightarrow> length row)"

definition mk_mat :: "nat \<Rightarrow> nat \<Rightarrow> (nat \<Rightarrow> nat \<Rightarrow> complex) \<Rightarrow> cmat" where
  "mk_mat r c f = map (\<lambda>i. map (\<lambda>j. f i j) [0..<c]) [0..<r]"

definition matmul :: "cmat \<Rightarrow> cmat \<Rightarrow> cmat" where
  "matmul A B =
     mk_mat (nrows A) (ncols B) (\<lambda>i j. \<Sum>k\<leftarrow>[0..<nrows B]. A ! i ! k * B ! k ! j)"

definition mat_add :: "cmat \<Rightarrow> cmat \<Rightarrow> cmat" where
  "mat_add A B = mk_mat (nrows A) (ncols A) (\<lambda>i j. A ! i ! j + B ! i ! j)"

definition mat_sub :: "cmat \<Rightarrow> cmat \<Rightarrow> cmat" where
  "mat_sub A B = mk_mat (nrows A) (ncols A) (\<lambda>i j. A ! i ! j - B ! i ! j)"

definition mat_scale :: "complex \<Rightarrow> cmat \<Rightarrow> cmat" where
  "mat_scale c A = mk_mat (nrows A) (ncols A) (\<lambda>i j. c * A ! i ! j)"

definition mat_adjoint :: "cmat \<Rightarrow> cmat" where
  "mat_adjoint A = mk_mat (ncols A) (nrows A) (\<lambda>i j. cnj (A ! j ! i))"

definition mat_vec :: "cmat \<Rightarrow> cvec \<Rightarrow> cvec" where
  "mat_vec A v = map (\<lambda>i. \<Sum>k\<leftarrow>[0..<length v]. A ! i ! k * v ! k) [0..<nrows A]"

definition np_diag :: "cvec \<Rightarrow> cmat" where
  "np_diag d = mk_mat (length d) (length d) (\<lambda>i j. if i = j then d ! i else 0)"

definition np_eye :: "nat \<Rightarrow> cmat" where
  "np_eye n = mk_mat n n (\<lambda>i j. if i = j then 1 else 0)"

definition np_zeros :: "nat \<Rightarrow> nat \<Rightarrow> cmat" where
  "np_zeros r c = mk_mat r c (\<lambda>i j. 0)"

text \<open>A square array of side \<open>n\<close>: the shape of every operator on the Hilbert space.\<close>

definition is_sq :: "nat \<Rightarrow> cmat \<Rightarrow> bool" where
  "is_sq n A \<longleftrightarrow> length A = n \<and> list_all (\<lambda>row. length row = n) A"

section \<open>Signals\<close>

text \<open>
  A signal is a complex-valued function of time; calling a \<^verbatim>\<open>SignalList\<close> at a time gives
  the list of the values of its signals. \<open>signals_value\<close> is the Python value handed to a
  \<^verbatim>\<open>signals\<close> setter: \<^verbatim>\<open>None\<close>, a list (or \<^verbatim>\<open>SignalList\<close>) of signals, or a pair.
\<close>

type_synonym Signal = "real \<Rightarrow> complex"
type_synonym SignalList = "Signal list"

definition SignalList_call :: "SignalList \<Rightarrow> real \<Rightarrow> cvec" where
  "SignalList_call sigs t = map (\<lambda>s. s t) sigs"

datatype signals_value =
    SigNone
  | SigList SignalList
  | SigTuple signals_value signals_value

section \<open>Frame\<close>

text \<open>
  Modelled from the spec: the class \<^verbatim>\<open>Frame\<close> (\<^verbatim>\<open>RotatingFrame\<close> in the Lindblad module)
  lives in \<^verbatim>\<open>models/frame.py\<close>, which is not among the sources. A value of this record is
  a constructed frame: \<open>frame_diag\<close> holds the eigenvalues of the frame operator \<open>F\<close> and
  \<open>frame_basis\<close> the matrix \<open>U\<close> of its eigenvectors, with \<open>F = U diag(frame_diag) U\<^sup>\<dagger>\<close>;
  both are \<open>None\<close> when no frame is set. The eigendecomposition itself is not modelled.
\<close>

record Frame =
  frame_diag :: "cvec option"
  frame_basis :: "cmat option"

text \<open>Modelled from the spec: \<^verbatim>\<open>Frame(None)\<close>, the frame of a model without a frame.\<close>

definition no_frame :: Frame where
  "no_frame = \<lparr>frame_diag = None, frame_basis = None\<rparr>"

text \<open>
  Modelled from the spec: a frame operator supplied as the rank-1 array of its diagonal; the
  basis is the identity.
\<close>

definition diagonal_frame :: "cvec \<Rightarrow> Frame" where
  "diagonal_frame d = \<lparr>frame_diag = Some d, frame_basis = Some (np_eye (length d))\<rparr>"

text \<open>
  Modelled from the spec: conjugation of an operator by the frame basis, \<open>U\<^sup>\<dagger> A U\<close> into the
  basis in which \<open>F\<close> is diagonal and \<open>U A U\<^sup>\<dagger>\<close> out of it; the identity when no frame is set.
\<close>

definition operator_into_frame_basis :: "Frame \<Rightarrow> cmat \<Rightarrow> cmat" where
  "operator_into_frame_basis fr op =
     (case frame_basis fr of
        None \<Rightarrow> op
      | Some U \<Rightarrow> matmul (matmul (mat_adjoint U) op) U)"

definition operator_out_of_frame_basis :: "Frame \<Rightarrow> cmat \<Rightarrow> cmat" where
  "operator_out_of_frame_basis fr op =
     (case frame_basis fr of
        None \<Rightarrow> op
      | Some U \<Rightarrow> matmul (matmul U op) (mat_adjoint U))"

text \<open>Modelled from the spec: the same change of basis on a state vector.\<close>

definition state_into_frame_basis :: "Frame \<Rightarrow> cvec \<Rightarrow> cvec" where
  "state_into_frame_basis fr y =
     (case frame_basis fr of None \<Rightarrow> y | Some U \<Rightarrow> mat_vec (mat_adjoint U) y)"

definition state_out_of_frame_basis :: "Frame \<Rightarrow> cvec \<Rightarrow> cvec" where
  "state_out_of_frame_basis fr y =
     (case frame_basis fr of None \<Rightarrow> y | Some U \<Rightarrow> mat_vec U y)"

text \<open>
  Modelled from the spec: \<^verbatim>\<open>operator_into_frame\<close> applies \<open>e\<^sup>-\<^sup>t\<^sup>F A e\<^sup>t\<^sup>F\<close>, computed in the
  diagonal basis entry by entry: entry \<open>(i, j)\<close> is multiplied by \<open>e\<^sup>-\<^sup>t\<^sup>d\<^sub>i\<close> on the left and by
  \<open>e\<^sup>t\<^sup>d\<^sub>j\<close> on the right. The two flags say whether the argument is, and whether the result
  shall be, in the diagonal basis.
\<close>

definition operator_into_frame :: "Frame \<Rightarrow> real \<Rightarrow> cmat \<Rightarrow> bool \<Rightarrow> bool \<Rightarrow> cmat" where
  "operator_into_frame fr t op operator_in_frame_basis return_in_frame_basis =
     (case frame_diag fr of
        None \<Rightarrow> op
      | Some d \<Rightarrow>
          (let out = (if operator_in_frame_basis then op else operator_into_frame_basis fr op);
               out = mk_mat (length d) (length d)
                       (\<lambda>i j. exp (- (d ! i) * of_real t) * out ! i ! j * exp (d ! j * of_real t))
           in if return_in_frame_basis then out else operator_out_of_frame_basis fr out))"

text \<open>
  Modelled from the spec: \<^verbatim>\<open>state_into_frame\<close> applies \<open>e\<^sup>-\<^sup>t\<^sup>F\<close> to a state and
  \<^verbatim>\<open>state_out_of_frame\<close> applies \<open>e\<^sup>t\<^sup>F\<close>, entry \<open>i\<close> being multiplied by \<open>e\<^sup>\<mp>\<^sup>t\<^sup>d\<^sub>i\<close>, with
  the same two basis flags.
\<close>

definition state_into_frame :: "Frame \<Rightarrow> real \<Rightarrow> cvec \<Rightarrow> bool \<Rightarrow> bool \<Rightarrow> cvec" where
  "state_into_frame fr t y y_in_frame_basis return_in_frame_basis =
     (case frame_diag fr of
        None \<Rightarrow> y
      | Some d \<Rightarrow>
          (let out = (if y_in_frame_basis then y else state_into_frame_basis fr y);
               out = map (\<lambda>i. exp (- (d ! i) * of_real t) * out ! i) [0..<length d]
           in if return_in_frame_basis then out else state_out_of_frame_basis fr out))"

definition state_out_of_frame :: "Frame \<Rightarrow> real \<Rightarrow> cvec \<Rightarrow> bool \<Rightarrow> bool \<Rightarrow> cvec" where
  "state_out_of_frame fr t y y_in_frame_basis return_in_frame_basis =
     (case frame_diag fr of
        None \<Rightarrow> y
      | Some d \<Rightarrow>
          (let out = (if y_in_frame_basis then y else state_into_frame_basis fr y);
               out = map (\<lambda>i. exp (d ! i * of_real t) * out ! i) [0..<length d]
           in if return_in_frame_basis then out else state_out_of_frame_basis fr out))"

text \<open>
  The shape of a constructed frame of dimension \<open>n\<close>, and the unitarity of its basis
  (\<open>U U\<^sup>\<dagger> = 1\<close>), which the spec states of every constructed frame.
\<close>

definition frame_dims :: "nat \<Rightarrow> Frame \<Rightarrow> bool" where
  "frame_dims n fr \<longleftrightarrow>
     (case frame_diag fr of
        None \<Rightarrow> frame_basis fr = None
      | Some d \<Rightarrow> length d = n \<and> (case frame_basis fr of None \<Rightarrow> False | Some U \<Rightarrow> is_sq n U))"

definition frame_unitary :: "Frame \<Rightarrow> bool" where
  "frame_unitary fr \<longleftrightarrow>
     (case frame_basis fr of
        None \<Rightarrow> True
      | Some U \<Rightarrow> matmul U (mat_adjoint U) = np_eye (nrows U))"

section \<open>Operator collections\<close>

text \<open>
  Modelled from the spec: \<^verbatim>\<open>DenseOperatorCollection\<close> lives in
  \<^verbatim>\<open>models/operator_collections.py\<close>, which is not among the sources. It holds the
  operators and the drift it was built from; called with one coefficient per operator it
  returns \<open>drift + \<Sum>\<^sub>i coeff\<^sub>i \<cdot> operator\<^sub>i\<close>.
\<close>

record DenseOperatorCollection =
  coll_operators :: "cmat list"
  coll_drift :: cmat

definition num_operators :: "DenseOperatorCollection \<Rightarrow> nat" where
  "num_operators coll = length (coll_operators coll)"

fun operator_sum :: "cmat \<Rightarrow> cvec \<Rightarrow> cmat list \<Rightarrow> cmat" where
  "operator_sum acc (c # cs) (A # As) = operator_sum (mat_add acc (mat_scale c A)) cs As"
| "operator_sum acc _ _ = acc"

definition DenseOperatorCollection_call :: "DenseOperatorCollection \<Rightarrow> cvec \<Rightarrow> cmat" where
  "DenseOperatorCollection_call coll signal_values =
     operator_sum (coll_drift coll) signal_values (coll_operators coll)"

text \<open>
  Modelled from the spec: the Lindblad collections (dense, sparse, dense vectorized) of the
  same absent module. A collection records which of the three classes it is and the
  operators, drift and dissipators it was built from.
\<close>

datatype lindblad_collection_class =
    DenseLindbladCollection
  | SparseLindbladCollection
  | DenseVectorizedLindbladCollection

record LindbladCollection =
  lcoll_class :: lindblad_collection_class
  lcoll_hamiltonian_operators :: "cmat list"
  lcoll_drift :: cmat
  lcoll_dissipator_operators :: "cmat list option"

section \<open>GeneratorModel\<close>

text \<open>
  The attributes of \<^verbatim>\<open>GeneratorModel\<close> (\<^verbatim>\<open>models/generator_models.py\<close>):
  \<^verbatim>\<open>_operators\<close>, \<^verbatim>\<open>_drift\<close>, \<^verbatim>\<open>_operator_collection\<close>, \<^verbatim>\<open>_evaluation_mode\<close>,
  \<^verbatim>\<open>_frame\<close> and \<^verbatim>\<open>_signals\<close>. \<open>gm_evaluation_mode = None\<close> stands for an attribute
  that was never assigned; the other options stand for the Python value \<^verbatim>\<open>None\<close>.
\<close>

record GeneratorModel =
  gm_operators :: "cmat list"
  gm_drift :: cmat
  gm_operator_collection :: "DenseOperatorCollection option"
  gm_evaluation_mode :: "string option"
  gm_frame :: "Frame option"
  gm_signals :: "SignalList option"

text \<open>\<^verbatim>\<open>hilbert_space_dimension\<close>: the last axis of the rank-3 array of operators.\<close>

definition hilbert_space_dimension :: "GeneratorModel \<Rightarrow> nat" where
  "hilbert_space_dimension self = (case gm_operators self of [] \<Rightarrow> 0 | A # _ \<Rightarrow> ncols A)"

text \<open>The \<^verbatim>\<open>drift\<close> setter of \<^verbatim>\<open>BaseGeneratorModel\<close>.\<close>

definition GeneratorModel_drift_setter :: "GeneratorModel \<Rightarrow> cmat option \<Rightarrow> GeneratorModel" where
  "GeneratorModel_drift_setter self new_drift =
     (let new_drift = (case new_drift of
                         None \<Rightarrow> np_zeros (hilbert_space_dimension self) (hilbert_space_dimension self)
                       | Some d \<Rightarrow> d);
          self = self\<lparr>gm_drift := new_drift\<rparr>
      in case gm_operator_collection self of
           None \<Rightarrow> self
         | Some coll \<Rightarrow> self\<lparr>gm_operator_collection := Some (coll\<lparr>coll_drift := new_drift\<rparr>)\<rparr>)"

text \<open>The \<^verbatim>\<open>evaluation_mode\<close> property: the getter fails on an attribute never assigned.\<close>

definition GeneratorModel_evaluation_mode :: "GeneratorModel \<Rightarrow> error + string" where
  "GeneratorModel_evaluation_mode self =
     (case gm_evaluation_mode self of
        None \<Rightarrow> Inl (AttributeError ''GeneratorModel object has no attribute _evaluation_mode'')
      | Some mode \<Rightarrow> Inr mode)"

definition GeneratorModel_evaluation_mode_setter ::
  "GeneratorModel \<Rightarrow> string \<Rightarrow> error option \<times> GeneratorModel" where
  "GeneratorModel_evaluation_mode_setter self new_mode =
     (if new_mode = ''dense_operator_collection''
      then (None, self\<lparr>gm_operator_collection :=
                          Some \<lparr>coll_operators = gm_operators self, coll_drift = gm_drift self\<rparr>,
                        gm_evaluation_mode := Some new_mode\<rparr>)
      else (None, self))"

text \<open>The \<^verbatim>\<open>signals\<close> setter. A pair is neither a list nor a \<^verbatim>\<open>SignalList\<close>.\<close>

definition GeneratorModel_signals_setter ::
  "GeneratorModel \<Rightarrow> signals_value \<Rightarrow> error option \<times> GeneratorModel" where
  "GeneratorModel_signals_setter self signals =
     (case signals of
        SigNone \<Rightarrow> (None, self\<lparr>gm_signals := None\<rparr>)
      | SigTuple _ _ \<Rightarrow> (Some (QiskitError ''Signals specified in unaccepted format.''), self)
      | SigList sigs \<Rightarrow>
          (case gm_operator_collection self of
             None \<Rightarrow> (Some (AttributeError ''NoneType object has no attribute num_operators''), self)
           | Some coll \<Rightarrow>
               if length sigs \<noteq> num_operators coll
               then (Some (QiskitError ''Signals needs to have the same length as operators.''), self)
               else (None, self\<lparr>gm_signals := Some sigs\<rparr>)))"

definition GeneratorModel_signals :: "GeneratorModel \<Rightarrow> signals_value" where
  "GeneratorModel_signals self =
     (case gm_signals self of None \<Rightarrow> SigNone | Some sigs \<Rightarrow> SigList sigs)"

text \<open>
  The \<^verbatim>\<open>frame\<close> setter. Its argument is the frame that \<^verbatim>\<open>Frame(frame)\<close> constructs. The
  old frame's contribution is added back to the drift and everything is taken out of the
  old basis; then everything is taken into the new basis and the new contribution is
  subtracted; last the operator collection is rebuilt by re-assigning the evaluation mode.
\<close>

definition GeneratorModel_frame_setter ::
  "GeneratorModel \<Rightarrow> Frame \<Rightarrow> error option \<times> GeneratorModel" where
  "GeneratorModel_frame_setter self frame =
     (let self =
            (case gm_frame self of
               None \<Rightarrow> self
             | Some old \<Rightarrow>
                 (case frame_diag old of
                    None \<Rightarrow> self
                  | Some d \<Rightarrow>
                      (let self = GeneratorModel_drift_setter self
                                    (Some (mat_add (gm_drift self) (np_diag d)));
                           self = self\<lparr>gm_operators :=
                                         map (operator_out_of_frame_basis old) (gm_operators self)\<rparr>
                       in GeneratorModel_drift_setter self
                            (Some (operator_out_of_frame_basis old (gm_drift self))))));
          self = self\<lparr>gm_frame := Some frame\<rparr>;
          self =
            (case frame_diag frame of
               None \<Rightarrow> self
             | Some d \<Rightarrow>
                 (let self = self\<lparr>gm_operators :=
                                     map (operator_into_frame_basis frame) (gm_operators self)\<rparr>;
                      self = GeneratorModel_drift_setter self
                               (Some (operator_into_frame_basis frame (gm_drift self)))
                  in GeneratorModel_drift_setter self
                       (Some (mat_sub (gm_drift self) (np_diag d)))))
      in case GeneratorModel_evaluation_mode self of
           Inl e \<Rightarrow> (Some e, self)
         | Inr mode \<Rightarrow> GeneratorModel_evaluation_mode_setter self mode)"

text \<open>
  \<^verbatim>\<open>GeneratorModel.__init__\<close>. The drift attribute is \<^verbatim>\<open>None\<close> only until the drift
  setter runs on the next line, so the record starts with an empty array there.
\<close>

definition GeneratorModel_init ::
  "cmat list \<Rightarrow> cmat option \<Rightarrow> signals_value \<Rightarrow> Frame \<Rightarrow> string \<Rightarrow> error + GeneratorModel" where
  "GeneratorModel_init operators drift signals frame evaluation_mode =
     (let self = \<lparr>gm_operators = operators, gm_drift = [], gm_operator_collection = None,
                   gm_evaluation_mode = None, gm_frame = None, gm_signals = None\<rparr>;
          self = GeneratorModel_drift_setter self drift;
          self = snd (GeneratorModel_evaluation_mode_setter self evaluation_mode)
      in case GeneratorModel_frame_setter self frame of
           (Some e, _) \<Rightarrow> Inl e
         | (None, self) \<Rightarrow>
             (case GeneratorModel_signals_setter self signals of
                (Some e, _) \<Rightarrow> Inl e
              | (None, self) \<Rightarrow> Inr self))"

text \<open>\<^verbatim>\<open>evaluate_generator\<close> and \<^verbatim>\<open>evaluate_rhs\<close>.\<close>

definition GeneratorModel_evaluate_generator ::
  "GeneratorModel \<Rightarrow> real \<Rightarrow> bool \<Rightarrow> error + cmat" where
  "GeneratorModel_evaluate_generator self time in_frame_basis =
     (case gm_signals self of
        None \<Rightarrow> Inl (QiskitError ''GeneratorModel cannot be evaluated without signals.'')
      | Some sigs \<Rightarrow>
          (let sig_vals = SignalList_call sigs time
           in case gm_operator_collection self of
                None \<Rightarrow> Inl (TypeError ''NoneType object is not callable'')
              | Some coll \<Rightarrow>
                  (let op_combo = DenseOperatorCollection_call coll sig_vals
                   in case gm_frame self of
                        None \<Rightarrow> Inl (AttributeError ''NoneType object has no attribute operator_into_frame'')
                      | Some fr \<Rightarrow> Inr (operator_into_frame fr time op_combo True in_frame_basis))))"

definition GeneratorModel_evaluate_rhs ::
  "GeneratorModel \<Rightarrow> real \<Rightarrow> cvec \<Rightarrow> bool \<Rightarrow> error + cvec" where
  "GeneratorModel_evaluate_rhs self time y in_frame_basis =
     (case gm_signals self of
        None \<Rightarrow> Inl (QiskitError ''GeneratorModel cannot be evaluated without signals.'')
      | Some sigs \<Rightarrow>
          (let sig_vals = SignalList_call sigs time
           in case gm_operator_collection self of
                None \<Rightarrow> Inl (TypeError ''NoneType object is not callable'')
              | Some coll \<Rightarrow>
                  (let op_combo = DenseOperatorCollection_call coll sig_vals
                   in case gm_frame self of
                        Some fr \<Rightarrow>
                          (let out = state_out_of_frame fr time y in_frame_basis True;
                               out = mat_vec op_combo out
                           in Inr (state_into_frame fr time out True in_frame_basis))
                      | None \<Rightarrow> Inr (mat_vec op_combo y))))"

section \<open>LindbladModel\<close>

text \<open>
  Modelled from the spec: the classes \<^verbatim>\<open>Signal\<close> and \<^verbatim>\<open>SignalList\<close> live in
  \<^verbatim>\<open>signals\<close>, which is not among the sources; both are called with a time, a signal
  giving its value and a signal list the array of the values of its signals, and a signal
  list can be iterated over like the list of its signals.

  \<^verbatim>\<open>LindbladModel\<close> stores in its two signal attributes whatever Python object it is given.
  \<open>pyobj\<close> are the objects that matter here: \<^verbatim>\<open>None\<close>, a signal, a signal list, a plain
  list and a tuple. Only a signal and a signal list can be called.
\<close>

datatype pyobj =
    PyNone
  | PySignal Signal
  | PySignalList SignalList
  | PyList "pyobj list"
  | PyTuple "pyobj list"

datatype signal_values = ScalarValue complex | ArrayValue cvec



text \<open>
  The attributes of \<^verbatim>\<open>LindbladModel\<close> (\<^verbatim>\<open>models/lindblad_models.py\<close>);
  \<open>lm_vectorized_operators = None\<close> stands for an attribute never assigned.
\<close>

record LindbladModel =
  lm_hamiltonian_operators :: "cmat list"
  lm_drift :: cmat
  lm_dissipator_operators :: "cmat list option"
  lm_hamiltonian_signals :: pyobj
  lm_dissipator_signals :: pyobj
  lm_frame :: "Frame option"
  lm_evaluation_mode :: "string option"
  lm_operator_collection :: "LindbladCollection option"
  lm_vectorized_operators :: "bool option"

definition LindbladModel_dim :: "LindbladModel \<Rightarrow> nat" where
  "LindbladModel_dim self =
     (case lm_hamiltonian_operators self of [] \<Rightarrow> 0 | A # _ \<Rightarrow> ncols A)"

text \<open>
  The \<^verbatim>\<open>drift\<close> setter that \<^verbatim>\<open>LindbladModel\<close> inherits from \<^verbatim>\<open>BaseGeneratorModel\<close>.
  \<open>LindbladModel_store_drift\<close> is what it does with an array: it stores it in the model and
  in the operator collection, if there is one. With \<^verbatim>\<open>None\<close> it reads
  \<^verbatim>\<open>self.hilbert_space_dimension\<close>, a property that \<^verbatim>\<open>LindbladModel\<close> does not define:
  the inherited abstract getter returns \<^verbatim>\<open>None\<close>, and \<^verbatim>\<open>np.zeros((None, None))\<close> raises.
\<close>

definition LindbladModel_store_drift :: "LindbladModel \<Rightarrow> cmat \<Rightarrow> LindbladModel" where
  "LindbladModel_store_drift self new_drift =
     (let self = self\<lparr>lm_drift := new_drift\<rparr>
      in case lm_operator_collection self of
           None \<Rightarrow> self
         | Some coll \<Rightarrow> self\<lparr>lm_operator_collection := Some (coll\<lparr>lcoll_drift := new_drift\<rparr>)\<rparr>)"

definition LindbladModel_drift_setter ::
  "LindbladModel \<Rightarrow> cmat option \<Rightarrow> error option \<times> LindbladModel" where
  "LindbladModel_drift_setter self new_drift =
     (case new_drift of
        None \<Rightarrow> (Some (TypeError ''NoneType object cannot be interpreted as an integer''), self)
      | Some d \<Rightarrow> (None, LindbladModel_store_drift self d))"

definition LindbladCollection_init :: "lindblad_collection_class \<Rightarrow> LindbladModel \<Rightarrow> LindbladCollection" where
  "LindbladCollection_init cls self =
     \<lparr>lcoll_class = cls,
      lcoll_hamiltonian_operators = lm_hamiltonian_operators self,
      lcoll_drift = lm_drift self,
      lcoll_dissipator_operators = lm_dissipator_operators self\<rparr>"

text \<open>The \<^verbatim>\<open>evaluation_mode\<close> setter; the mode is a string or \<^verbatim>\<open>None\<close>.\<close>

definition LindbladModel_evaluation_mode_setter ::
  "LindbladModel \<Rightarrow> string option \<Rightarrow> error option \<times> LindbladModel" where
  "LindbladModel_evaluation_mode_setter self new_mode =
     (if new_mode = Some ''dense''
      then (None, self\<lparr>lm_operator_collection :=
                          Some (LindbladCollection_init DenseLindbladCollection self),
                        lm_vectorized_operators := Some False,
                        lm_evaluation_mode := new_mode\<rparr>)
      else if new_mode = Some ''sparse''
      then (None, self\<lparr>lm_operator_collection :=
                          Some (LindbladCollection_init SparseLindbladCollection self),
                        lm_vectorized_operators := Some False,
                        lm_evaluation_mode := new_mode\<rparr>)
      else if new_mode = Some ''dense_vectorized''
      then (None, self\<lparr>lm_operator_collection :=
                          Some (LindbladCollection_init DenseVectorizedLindbladCollection self),
                        lm_vectorized_operators := Some True,
                        lm_evaluation_mode := new_mode\<rparr>)
      else (case new_mode of
              None \<Rightarrow> (None, self\<lparr>lm_evaluation_mode := new_mode\<rparr>)
            | Some mode \<Rightarrow>
                (Some (NotImplementedError (''Evaluation mode '' @ mode @ '' is not supported.'')),
                 self)))"

text \<open>
  The \<^verbatim>\<open>signals\<close> property. The getter returns the list of the two attributes. The
  setter unpacks its argument into the two attributes, with no conversion and no check: a
  tuple or list of two objects gives these two, a signal list of two signals gives the two
  signals, a sequence of another length raises \<^verbatim>\<open>ValueError\<close>, and \<^verbatim>\<open>None\<close> or a signal
  cannot be unpacked.
\<close>

definition LindbladModel_signals :: "LindbladModel \<Rightarrow> pyobj" where
  "LindbladModel_signals self = PyList [lm_hamiltonian_signals self, lm_dissipator_signals self]"

definition unpack_pair :: "pyobj \<Rightarrow> error + pyobj \<times> pyobj" where
  "unpack_pair obj =
     (case obj of
        PyNone \<Rightarrow> Inl (TypeError ''cannot unpack non-iterable NoneType object'')
      | PySignal _ \<Rightarrow> Inl (TypeError ''cannot unpack non-iterable Signal object'')
      | PySignalList sigs \<Rightarrow>
          (case sigs of
             [s1, s2] \<Rightarrow> Inr (PySignal s1, PySignal s2)
           | _ \<Rightarrow> Inl (ValueError ''wrong number of values to unpack (expected 2)''))
      | PyList objs \<Rightarrow>
          (case objs of
             [a, b] \<Rightarrow> Inr (a, b)
           | _ \<Rightarrow> Inl (ValueError ''wrong number of values to unpack (expected 2)''))
      | PyTuple objs \<Rightarrow>
          (case objs of
             [a, b] \<Rightarrow> Inr (a, b)
           | _ \<Rightarrow> Inl (ValueError ''wrong number of values to unpack (expected 2)'')))"

definition LindbladModel_signals_setter ::
  "LindbladModel \<Rightarrow> pyobj \<Rightarrow> error option \<times> LindbladModel" where
  "LindbladModel_signals_setter self new_signals =
     (case unpack_pair new_signals of
        Inl e \<Rightarrow> (Some e, self)
      | Inr (hamiltonian_signals, dissipator_signals) \<Rightarrow>
          (None, self\<lparr>lm_hamiltonian_signals := hamiltonian_signals,
                       lm_dissipator_signals := dissipator_signals\<rparr>))"

text \<open>
  The \<^verbatim>\<open>frame\<close> setter; its argument is the frame that \<^verbatim>\<open>RotatingFrame(frame)\<close>
  constructs. Every assignment to \<^verbatim>\<open>self.drift\<close> in it assigns an array, so the drift
  setter stores it.
\<close>

definition LindbladModel_frame_setter ::
  "LindbladModel \<Rightarrow> Frame \<Rightarrow> error option \<times> LindbladModel" where
  "LindbladModel_frame_setter self frame =
     (let self =
            (case lm_frame self of
               None \<Rightarrow> self
             | Some old \<Rightarrow>
                 (case frame_diag old of
                    None \<Rightarrow> self
                  | Some d \<Rightarrow>
                      (let self = LindbladModel_store_drift self
                                    (mat_add (lm_drift self) (np_diag (map (\<lambda>x. \<i> * x) d)));
                           self = self\<lparr>lm_hamiltonian_operators :=
                                         map (operator_out_of_frame_basis old)
                                           (lm_hamiltonian_operators self)\<rparr>;
                           self = (case lm_dissipator_operators self of
                                     None \<Rightarrow> self
                                   | Some diss \<Rightarrow>
                                       self\<lparr>lm_dissipator_operators :=
                                              Some (map (operator_out_of_frame_basis old) diss)\<rparr>)
                       in LindbladModel_store_drift self
                            (operator_out_of_frame_basis old (lm_drift self)))));
          self = self\<lparr>lm_frame := Some frame\<rparr>;
          self =
            (case frame_diag frame of
               None \<Rightarrow> self
             | Some d \<Rightarrow>
                 (let self = self\<lparr>lm_hamiltonian_operators :=
                                     map (operator_into_frame_basis frame)
                                       (lm_hamiltonian_operators self)\<rparr>;
                      self = (case lm_dissipator_operators self of
                                None \<Rightarrow> self
                              | Some diss \<Rightarrow>
                                  self\<lparr>lm_dissipator_operators :=
                                         Some (map (operator_into_frame_basis frame) diss)\<rparr>);
                      self = LindbladModel_store_drift self
                               (operator_into_frame_basis frame (lm_drift self))
                  in LindbladModel_store_drift self
                       (mat_sub (lm_drift self) (np_diag (map (\<lambda>x. \<i> * x) d)))))
      in LindbladModel_evaluation_mode_setter self (lm_evaluation_mode self))"

text \<open>
  Constructing a \<^verbatim>\<open>LindbladModel\<close>. \<^verbatim>\<open>BaseGeneratorModel\<close> declares the property
  \<^verbatim>\<open>hilbert_space_dimension\<close> abstract and \<^verbatim>\<open>LindbladModel\<close> does not define it (it
  defines \<^verbatim>\<open>dim\<close>), so the class is abstract: calling it raises \<^verbatim>\<open>TypeError\<close> before
  \<^verbatim>\<open>__init__\<close> runs, whatever the arguments. The properties of \<^verbatim>\<open>LindbladModel\<close> below are
  therefore stated of its methods on a given state of the attributes.
\<close>

definition LindbladModel_init ::
  "cmat list \<Rightarrow> pyobj \<Rightarrow> cmat list option \<Rightarrow> pyobj \<Rightarrow> cmat option \<Rightarrow> Frame
     \<Rightarrow> string option \<Rightarrow> error + LindbladModel" where
  "LindbladModel_init hamiltonian_operators hamiltonian_signals dissipator_operators
       dissipator_signals drift frame evaluation_mode =
     Inl (TypeError ''Cannot instantiate abstract class LindbladModel with abstract method hilbert_space_dimension'')"


section \<open>Solver\<close>

text \<open>
  \<^verbatim>\<open>Solver\<close> (\<^verbatim>\<open>solvers/solver_classes.py\<close>) owns a model, the signal map of the
  rotating-wave approximation, the channels of a pulse configuration (\<^verbatim>\<open>None\<close> when the
  solver is not configured for pulse simulation) and the set of durations compiled so far.
  The solver is written against the model's public interface only: its class, \<^verbatim>\<open>dim\<close>,
  \<^verbatim>\<open>evaluation_mode\<close> and the \<^verbatim>\<open>signals\<close> property. That interface is the parameter
  \<open>mi\<close> of the definitions below.
\<close>

datatype model_class = HamiltonianModelClass | LindbladModelClass

record 'm model_interface =
  model_class_of :: "'m \<Rightarrow> model_class"
  model_dim :: "'m \<Rightarrow> nat"
  model_evaluation_mode :: "'m \<Rightarrow> string"
  model_signals :: "'m \<Rightarrow> signals_value"
  model_signals_setter :: "'m \<Rightarrow> signals_value \<Rightarrow> error option \<times> 'm"

record 'm Solver =
  solver_model :: 'm
  rwa_signal_map :: "(signals_value \<Rightarrow> signals_value) option"
  all_channels :: "string list option"
  jit_cache :: "int fset"

text \<open>
  A \<^verbatim>\<open>HamiltonianModel\<close> is a \<^verbatim>\<open>GeneratorModel\<close>; this is the interface it inherits from
  the class modelled above.
\<close>

definition GeneratorModel_interface :: "GeneratorModel model_interface" where
  "GeneratorModel_interface =
     \<lparr>model_class_of = (\<lambda>m. HamiltonianModelClass),
      model_dim = hilbert_space_dimension,
      model_evaluation_mode = (\<lambda>m. case gm_evaluation_mode m of None \<Rightarrow> [] | Some mode \<Rightarrow> mode),
      model_signals = GeneratorModel_signals,
      model_signals_setter = GeneratorModel_signals_setter\<rparr>"

subsection \<open>The context manager \<^verbatim>\<open>signal_assignment\<close>\<close>

text \<open>
  \<^verbatim>\<open>signal_assignment\<close> is a generator function under \<^verbatim>\<open>@contextmanager\<close>. Entering the
  \<^verbatim>\<open>with\<close> statement runs it up to its \<^verbatim>\<open>yield\<close>; leaving the body normally resumes it
  after the \<^verbatim>\<open>yield\<close>; an exception of the body is raised inside the generator at the
  \<^verbatim>\<open>yield\<close>, where this generator has no \<^verbatim>\<open>try\<close>, so it leaves the generator at once
  and propagates.
\<close>

definition signal_assignment_enter ::
  "'m model_interface \<Rightarrow> 'm Solver \<Rightarrow> signals_value
     \<Rightarrow> (error option \<times> 'm Solver) \<times> signals_value" where
  "signal_assignment_enter mi self signals =
     (let old_signals = model_signals mi (solver_model self);
          signals = (if model_class_of mi (solver_model self) = LindbladModelClass
                        \<and> (case signals of SigList _ \<Rightarrow> True | _ \<Rightarrow> False)
                     then SigTuple signals SigNone else signals);
          signals = (case rwa_signal_map self of None \<Rightarrow> signals | Some f \<Rightarrow> f signals);
          (err, m) = model_signals_setter mi (solver_model self) signals
      in ((err, self\<lparr>solver_model := m\<rparr>), old_signals))"

definition signal_assignment_exit ::
  "'m model_interface \<Rightarrow> 'm Solver \<Rightarrow> signals_value \<Rightarrow> error option \<times> 'm Solver" where
  "signal_assignment_exit mi self old_signals =
     (let (err, m) = model_signals_setter mi (solver_model self) old_signals
      in (err, self\<lparr>solver_model := m\<rparr>))"

definition with_signal_assignment ::
  "'m model_interface \<Rightarrow> 'm Solver \<Rightarrow> signals_value
     \<Rightarrow> ('m Solver \<Rightarrow> (error + 'r) \<times> 'm Solver) \<Rightarrow> (error + 'r) \<times> 'm Solver" where
  "with_signal_assignment mi self signals body =
     (case signal_assignment_enter mi self signals of
        ((Some e, self), _) \<Rightarrow> (Inl e, self)
      | ((None, self), old_signals) \<Rightarrow>
          (case body self of
             (Inl e, self) \<Rightarrow> (Inl e, self)
           | (Inr r, self) \<Rightarrow>
               (case signal_assignment_exit mi self old_signals of
                  (Some e, self) \<Rightarrow> (Inl e, self)
                | (None, self) \<Rightarrow> (Inr r, self))))"

subsection \<open>The cache of compiled durations\<close>

text \<open>
  \<^verbatim>\<open>_JIT_MIN_PADDING_FRAC\<close> and \<^verbatim>\<open>_JIT_DURATION_PADDING\<close> are the decimal constants of
  the class, as exact rationals. \<open>py_round\<close> is Python's \<^verbatim>\<open>round\<close> with one argument:
  to the nearest integer, a tie to the even one.
\<close>

definition JIT_MIN_PADDING_FRAC :: rat where
  "JIT_MIN_PADDING_FRAC = 2 / 10"

definition JIT_DURATION_PADDING :: rat where
  "JIT_DURATION_PADDING = 15 / 10"

definition py_round :: "rat \<Rightarrow> int" where
  "py_round x =
     (let f = \<lfloor>x\<rfloor>; d = x - of_int f
      in if d < 1 / 2 then f
         else if 1 / 2 < d then f + 1
         else if even f then f else f + 1)"

text \<open>The test of the loop of \<^verbatim>\<open>_jit_shape\<close>, and the loop over the sorted cache.\<close>

definition jit_reusable :: "int \<Rightarrow> int \<Rightarrow> bool" where
  "jit_reusable required_duration duration \<longleftrightarrow>
     of_int duration * JIT_MIN_PADDING_FRAC < of_int required_duration
       \<and> required_duration \<le> duration"

fun jit_search :: "int \<Rightarrow> int list \<Rightarrow> int option" where
  "jit_search required_duration [] = None"
| "jit_search required_duration (duration # rest) =
     (if jit_reusable required_duration duration
      then Some duration
      else jit_search required_duration rest)"

text \<open>
  \<^verbatim>\<open>_jit_shape\<close>: the \<^verbatim>\<open>else\<close> of the \<^verbatim>\<open>for\<close> runs when the loop ends without
  \<^verbatim>\<open>break\<close>. The result is the pair of the number of channels and the duration;
  \<^verbatim>\<open>len(None)\<close> raises.
\<close>

definition jit_shape :: "'m Solver \<Rightarrow> int \<Rightarrow> (error + nat \<times> int) \<times> 'm Solver" where
  "jit_shape self required_duration =
     (let (duration, self) =
            (case jit_search required_duration (sorted_list_of_fset (jit_cache self)) of
               Some duration \<Rightarrow> (duration, self)
             | None \<Rightarrow>
                 (let duration = py_round (JIT_DURATION_PADDING * of_int required_duration)
                  in (duration, self\<lparr>jit_cache := finsert duration (jit_cache self)\<rparr>)))
      in case all_channels self of
           None \<Rightarrow> (Inl (TypeError ''object of type NoneType has no len()''), self)
         | Some chans \<Rightarrow> (Inr (length chans, duration), self))"

subsection \<open>Initial and final states\<close>

text \<open>
  An array handed to the integrator is a vector or a matrix. An initial state is an array or
  an object of \<^verbatim>\<open>qiskit.quantum_info\<close>; a quantum channel is given by the matrix of its
  \<^verbatim>\<open>SuperOp\<close> representation.
\<close>

datatype ndarray = Vec cvec | Mat cmat

datatype state_object =
    ArrayObj ndarray
  | Statevector cvec
  | DensityMatrix cmat
  | QuantumChannel cmat
  | OperatorObj cmat

datatype state_class = StatevectorClass | DensityMatrixClass | SuperOpClass | OperatorClass

definition initial_state_converter :: "state_object \<Rightarrow> ndarray \<times> state_class option" where
  "initial_state_converter obj =
     (case obj of
        Statevector v \<Rightarrow> (Vec v, Some StatevectorClass)
      | DensityMatrix A \<Rightarrow> (Mat A, Some DensityMatrixClass)
      | QuantumChannel S \<Rightarrow> (Mat S, Some SuperOpClass)
      | OperatorObj A \<Rightarrow> (Mat A, Some OperatorClass)
      | ArrayObj a \<Rightarrow> (a, None))"

text \<open>
  Modelled from the spec: \<^verbatim>\<open>is_lindblad_model_vectorized\<close> and
  \<^verbatim>\<open>is_lindblad_model_not_vectorized\<close> live in \<^verbatim>\<open>solvers/solver_utils.py\<close>, which is not
  among the sources: a Lindblad model whose evaluation mode is, or is not, a vectorized one.
\<close>

fun contains_substring :: "string \<Rightarrow> string \<Rightarrow> bool" where
  "contains_substring sub [] = (sub = [])"
| "contains_substring sub (c # cs) =
     (take (length sub) (c # cs) = sub \<or> contains_substring sub cs)"

definition is_lindblad_model_vectorized :: "'m model_interface \<Rightarrow> 'm \<Rightarrow> bool" where
  "is_lindblad_model_vectorized mi model \<longleftrightarrow>
     model_class_of mi model = LindbladModelClass
       \<and> contains_substring ''vectorized'' (model_evaluation_mode mi model)"

definition is_lindblad_model_not_vectorized :: "'m model_interface \<Rightarrow> 'm \<Rightarrow> bool" where
  "is_lindblad_model_not_vectorized mi model \<longleftrightarrow>
     model_class_of mi model = LindbladModelClass
       \<and> \<not> contains_substring ''vectorized'' (model_evaluation_mode mi model)"

definition flatten_F :: "cmat \<Rightarrow> cvec" where
  "flatten_F A = concat (map (\<lambda>j. map (\<lambda>i. A ! i ! j) [0..<nrows A]) [0..<ncols A])"

definition shape0 :: "ndarray \<Rightarrow> nat" where
  "shape0 a = (case a of Vec v \<Rightarrow> length v | Mat A \<Rightarrow> nrows A)"

text \<open>
  \<^verbatim>\<open>validate_and_format_initial_state\<close>: the state to integrate, the caller's state as an
  array, and its class. (The fourth component of the Python result, the function that wraps
  an array in that class again, is left out.) A state vector given to a Lindblad model is
  first made a density matrix, the projector on it.
\<close>

definition validate_and_format_initial_state ::
  "'m model_interface \<Rightarrow> state_object \<Rightarrow> 'm
     \<Rightarrow> error + ndarray \<times> ndarray \<times> state_class option" where
  "validate_and_format_initial_state mi y0 model =
     (let y0 = (case y0 of
                  Statevector v \<Rightarrow>
                    if model_class_of mi model = LindbladModelClass
                    then DensityMatrix (mk_mat (length v) (length v) (\<lambda>i j. v ! i * cnj (v ! j)))
                    else y0
                | _ \<Rightarrow> y0);
          (y0, y0_cls) = initial_state_converter y0;
          y0_input = y0
      in if y0_cls = Some SuperOpClass \<and> is_lindblad_model_not_vectorized mi model
         then Inl (QiskitError ''Simulating SuperOp for a LindbladModel requires setting vectorized evaluation.'')
         else
           (let y0 =
                  (if (y0_cls = Some DensityMatrixClass \<or> y0_cls = Some SuperOpClass)
                        \<and> model_class_of mi model = HamiltonianModelClass
                   then Mat (np_eye (model_dim mi model))
                   else if y0_cls = Some DensityMatrixClass
                           \<and> model_class_of mi model = LindbladModelClass
                           \<and> contains_substring ''vectorized'' (model_evaluation_mode mi model)
                   then (case y0 of Mat A \<Rightarrow> Vec (flatten_F A) | Vec v \<Rightarrow> Vec v)
                   else y0)
            in if model_class_of mi model = HamiltonianModelClass
                    \<and> shape0 y0 \<noteq> model_dim mi model
               then Inl (QiskitError ''Shape mismatch for initial state y0 and HamiltonianModel.'')
               else if is_lindblad_model_vectorized mi model
                    \<and> shape0 y0 \<noteq> (model_dim mi model)\<^sup>2
               then Inl (QiskitError ''Shape mismatch for initial state y0 and LindbladModel in vectorized evaluation mode.'')
               else if is_lindblad_model_not_vectorized mi model
                    \<and> \<not> (case y0 of
                            Mat A \<Rightarrow> nrows A = model_dim mi model \<and> ncols A = model_dim mi model
                          | Vec _ \<Rightarrow> False)
               then Inl (QiskitError ''Shape mismatch for initial state y0 and LindbladModel.'')
               else Inr (y0, y0_input, y0_cls)))"

text \<open>
  \<^verbatim>\<open>format_final_states\<close>: \<open>y\<close> is the trajectory, one array per time. The three special
  cases conjugate the initial density matrix by each propagator, compose the initial
  superoperator with the superoperator of each propagator (the \<^verbatim>\<open>einsum\<close> followed by the
  \<^verbatim>\<open>reshape\<close> puts \<open>cnj (U\<^sub>k\<^sub>a) * U\<^sub>l\<^sub>b\<close> at row \<open>k * d + l\<close> and column \<open>a * d + b\<close>), and fold
  each vectorized density matrix back column by column. A rank-1 array where a matrix is
  needed makes NumPy raise.
\<close>

definition unitary_superop :: "cmat \<Rightarrow> cmat" where
  "unitary_superop U =
     (let d = nrows U
      in mk_mat (d * d) (d * d)
           (\<lambda>r c. cnj (U ! (r div d) ! (c div d)) * U ! (r mod d) ! (c mod d)))"

fun map_mats :: "(cmat \<Rightarrow> cmat) \<Rightarrow> ndarray list \<Rightarrow> error + ndarray list" where
  "map_mats f [] = Inr []"
| "map_mats f (Mat U # ys) =
     (case map_mats f ys of Inl e \<Rightarrow> Inl e | Inr zs \<Rightarrow> Inr (Mat (f U) # zs))"
| "map_mats f (Vec v # ys) = Inl (ValueError ''array of rank 3 expected'')"

definition format_final_states ::
  "'m model_interface \<Rightarrow> ndarray list \<Rightarrow> 'm \<Rightarrow> ndarray \<Rightarrow> state_class option
     \<Rightarrow> error + ndarray list" where
  "format_final_states mi y model y0_input y0_cls =
     (if y0_cls = Some DensityMatrixClass \<and> model_class_of mi model = HamiltonianModelClass
      then (case y0_input of
              Mat rho \<Rightarrow> map_mats (\<lambda>U. matmul (matmul U rho) (mat_adjoint U)) y
            | Vec _ \<Rightarrow> Inl (ValueError ''density matrix expected''))
      else if y0_cls = Some SuperOpClass \<and> model_class_of mi model = HamiltonianModelClass
      then (case y0_input of
              Mat S \<Rightarrow> map_mats (\<lambda>U. matmul (unitary_superop U) S) y
            | Vec _ \<Rightarrow> Inl (ValueError ''superoperator expected''))
      else if y0_cls = Some DensityMatrixClass \<and> is_lindblad_model_vectorized mi model
      then (case y0_input of
              Mat rho \<Rightarrow>
                Inr (map (\<lambda>yi. case yi of
                                 Vec v \<Rightarrow> Mat (mk_mat (nrows rho) (ncols rho)
                                                  (\<lambda>i j. v ! (i + nrows rho * j)))
                               | Mat A \<Rightarrow> Mat A) y)
            | Vec _ \<Rightarrow> Inr y)
      else Inr y)"

subsection \<open>\<^verbatim>\<open>solve\<close> for one simulation\<close>

text \<open>
  The body of the loop of \<^verbatim>\<open>Solver.solve\<close> for a call with a single time span, a single
  initial state and a single list of signals, on the path that does not compile: the loop
  then runs once, \<^verbatim>\<open>y0_elem\<close> is the caller's \<^verbatim>\<open>y0\<close>, and the integrator \<^verbatim>\<open>solve_lmde\<close>
  (the parameter of that name) is called with \<^verbatim>\<open>y0=y0_elem\<close>. The result is the trajectory
  after \<^verbatim>\<open>format_final_states\<close>.
\<close>

definition solve_single ::
  "'m model_interface
     \<Rightarrow> ('m \<Rightarrow> real list \<Rightarrow> state_object \<Rightarrow> error + real list \<times> ndarray list)
     \<Rightarrow> 'm Solver \<Rightarrow> real list \<Rightarrow> state_object \<Rightarrow> signals_value
     \<Rightarrow> (error + real list \<times> ndarray list) \<times> 'm Solver" where
  "solve_single mi solve_lmde self t_span y0 signals =
     (let y0_elem = y0
      in case validate_and_format_initial_state mi y0 (solver_model self) of
           Inl e \<Rightarrow> (Inl e, self)
         | Inr (y0, y0_input, y0_cls) \<Rightarrow>
             with_signal_assignment mi self signals
               (\<lambda>self.
                  case solve_lmde (solver_model self) t_span y0_elem of
                    Inl e \<Rightarrow> (Inl e, self)
                  | Inr (ts, ys) \<Rightarrow>
                      (case format_final_states mi ys (solver_model self) y0_input y0_cls of
                         Inl e \<Rightarrow> (Inl e, self)
                       | Inr ys \<Rightarrow> (Inr (ts, ys), self))))"

section \<open>Frame changes and the stored operators\<close>


text \<open>
  The operator collection of a Lindblad model is current when it was built from the arrays
  the model stores now; a model whose evaluation mode is \<^verbatim>\<open>None\<close> has no collection.
\<close>

definition LindbladModel_mode_set :: "LindbladModel \<Rightarrow> bool" where
  "LindbladModel_mode_set self \<longleftrightarrow>
     (case lm_operator_collection self of
        None \<Rightarrow> lm_evaluation_mode self = None
      | Some coll \<Rightarrow>
          lm_evaluation_mode self \<in> {Some ''dense'', Some ''sparse'', Some ''dense_vectorized''})"






section \<open>Array algebra\<close>

lemma is_sq_mk_mat [simp]: "is_sq n (mk_mat n n f)"
  by (auto simp: is_sq_def mk_mat_def list_all_iff)

lemma nth_mk_mat [simp]: "i < r \<Longrightarrow> j < c \<Longrightarrow> mk_mat r c f ! i ! j = f i j"
  by (simp add: mk_mat_def)

lemma is_sq_dims: "is_sq n A \<Longrightarrow> nrows A = n \<and> ncols A = n"
  by (cases A) (auto simp: is_sq_def nrows_def ncols_def list_all_iff)

lemma nrows_mk_mat [simp]: "nrows (mk_mat r c f) = r"
  by (simp add: nrows_def mk_mat_def)

lemma ncols_mk_mat [simp]: "ncols (mk_mat r c f) = (if r = 0 then 0 else c)"
  by (cases r) (simp_all add: ncols_def mk_mat_def upt_conv_Cons del: upt_Suc)

lemma is_sq_row: "is_sq n A \<Longrightarrow> i < n \<Longrightarrow> length (A ! i) = n"
  by (auto simp: is_sq_def list_all_iff)

lemma sq_eqI:
  assumes "is_sq n A" "is_sq n B" "\<And>i j. i < n \<Longrightarrow> j < n \<Longrightarrow> A ! i ! j = B ! i ! j"
  shows "A = B"
proof (rule nth_equalityI)
  show "length A = length B" using assms by (simp add: is_sq_def)
next
  fix i assume "i < length A"
  then have i: "i < n" using assms(1) by (simp add: is_sq_def)
  show "A ! i = B ! i"
  proof (rule nth_equalityI)
    show "length (A ! i) = length (B ! i)"
      using assms(1,2) i by (simp add: is_sq_row)
  next
    fix j assume "j < length (A ! i)"
    then have "j < n" using assms(1) i by (simp add: is_sq_row)
    with i show "A ! i ! j = B ! i ! j" by (rule assms(3))
  qed
qed

lemma sum_list_upt: "(\<Sum>k\<leftarrow>[0..<n]. f k) = (\<Sum>k<n. f k)"
  by (simp add: interv_sum_list_conv_sum_set_nat atLeast0LessThan)

lemma is_sq_matmul [simp]: "is_sq n A \<Longrightarrow> is_sq n B \<Longrightarrow> is_sq n (matmul A B)"
  using is_sq_dims [of n A] is_sq_dims [of n B] by (simp add: matmul_def)

lemma nth_matmul:
  "is_sq n A \<Longrightarrow> is_sq n B \<Longrightarrow> i < n \<Longrightarrow> j < n \<Longrightarrow>
     matmul A B ! i ! j = (\<Sum>k<n. A ! i ! k * B ! k ! j)"
  using is_sq_dims [of n A] is_sq_dims [of n B] by (simp add: matmul_def sum_list_upt)

lemma matmul_assoc:
  assumes A: "is_sq n A" and B: "is_sq n B" and C: "is_sq n C"
  shows "matmul (matmul A B) C = matmul A (matmul B C)"
proof (rule sq_eqI [of n])
  fix i j assume i: "i < n" and j: "j < n"
  have AB: "is_sq n (matmul A B)" and BC: "is_sq n (matmul B C)"
    using A B C by simp_all
  have "matmul (matmul A B) C ! i ! j = (\<Sum>k<n. matmul A B ! i ! k * C ! k ! j)"
    by (rule nth_matmul [OF AB C i j])
  also have "\<dots> = (\<Sum>k<n. (\<Sum>l<n. A ! i ! l * B ! l ! k) * C ! k ! j)"
    by (rule sum.cong) (simp_all add: nth_matmul [OF A B i])
  also have "\<dots> = (\<Sum>k<n. \<Sum>l<n. A ! i ! l * (B ! l ! k * C ! k ! j))"
    by (simp add: sum_distrib_right mult.assoc)
  also have "\<dots> = (\<Sum>l<n. \<Sum>k<n. A ! i ! l * (B ! l ! k * C ! k ! j))"
    by (rule sum.swap)
  also have "\<dots> = (\<Sum>l<n. A ! i ! l * (\<Sum>k<n. B ! l ! k * C ! k ! j))"
    by (simp add: sum_distrib_left)
  also have "\<dots> = (\<Sum>l<n. A ! i ! l * matmul B C ! l ! j)"
    by (rule sum.cong) (simp_all add: nth_matmul [OF B C _ j])
  also have "\<dots> = matmul A (matmul B C) ! i ! j"
    by (rule nth_matmul [OF A BC i j, symmetric])
  finally show "matmul (matmul A B) C ! i ! j = matmul A (matmul B C) ! i ! j" .
qed (use assms in simp_all)

lemma is_sq_eye [simp]: "is_sq n (np_eye n)"
  by (simp add: np_eye_def)

lemma matmul_eye_left:
  assumes A: "is_sq n A" shows "matmul (np_eye n) A = A"
proof (rule sq_eqI [of n])
  fix i j assume i: "i < n" and j: "j < n"
  have "matmul (np_eye n) A ! i ! j = (\<Sum>k<n. np_eye n ! i ! k * A ! k ! j)"
    by (rule nth_matmul [OF is_sq_eye A i j])
  also have "\<dots> = (\<Sum>k<n. if k = i then A ! k ! j else 0)"
    by (rule sum.cong) (use i in \<open>auto simp: np_eye_def\<close>)
  also have "\<dots> = A ! i ! j"
    using i by simp
  finally show "matmul (np_eye n) A ! i ! j = A ! i ! j" .
qed (use assms in simp_all)

lemma matmul_eye_right:
  assumes A: "is_sq n A" shows "matmul A (np_eye n) = A"
proof (rule sq_eqI [of n])
  fix i j assume i: "i < n" and j: "j < n"
  have "matmul A (np_eye n) ! i ! j = (\<Sum>k<n. A ! i ! k * np_eye n ! k ! j)"
    by (rule nth_matmul [OF A is_sq_eye i j])
  also have "\<dots> = (\<Sum>k<n. if k = j then A ! i ! k else 0)"
    by (rule sum.cong) (use j in \<open>auto simp: np_eye_def\<close>)
  also have "\<dots> = A ! i ! j"
    using j by simp
  finally show "matmul A (np_eye n) ! i ! j = A ! i ! j" .
qed (use assms in simp_all)

lemma is_sq_add [simp]: "is_sq n A \<Longrightarrow> is_sq n (mat_add A B)"
  using is_sq_dims [of n A] by (simp add: mat_add_def)

lemma is_sq_sub [simp]: "is_sq n A \<Longrightarrow> is_sq n (mat_sub A B)"
  using is_sq_dims [of n A] by (simp add: mat_sub_def)

lemma is_sq_adjoint [simp]: "is_sq n A \<Longrightarrow> is_sq n (mat_adjoint A)"
  using is_sq_dims [of n A] by (simp add: mat_adjoint_def)

lemma is_sq_diag [simp]: "length d = n \<Longrightarrow> is_sq n (np_diag d)"
  by (auto simp: np_diag_def)

lemma is_sq_zeros [simp]: "is_sq n (np_zeros n n)"
  by (simp add: np_zeros_def)

lemma mat_add_sub_cancel:
  assumes "is_sq n A" shows "mat_sub (mat_add A D) D = A"
proof (rule sq_eqI [of n])
  fix i j assume "i < n" "j < n"
  then show "mat_sub (mat_add A D) D ! i ! j = A ! i ! j"
    using is_sq_dims [OF assms] by (simp add: mat_add_def mat_sub_def)
qed (use assms in simp_all)

lemma mat_sub_add_cancel:
  assumes "is_sq n A" shows "mat_add (mat_sub A D) D = A"
proof (rule sq_eqI [of n])
  fix i j assume "i < n" "j < n"
  then show "mat_add (mat_sub A D) D ! i ! j = A ! i ! j"
    using is_sq_dims [OF assms] by (simp add: mat_add_def mat_sub_def)
qed (use assms in simp_all)

lemma length_mat_vec [simp]: "length (mat_vec A v) = nrows A"
  by (simp add: mat_vec_def)

lemma nth_mat_vec:
  "is_sq n A \<Longrightarrow> length v = n \<Longrightarrow> i < n \<Longrightarrow> mat_vec A v ! i = (\<Sum>k<n. A ! i ! k * v ! k)"
  using is_sq_dims [of n A] by (simp add: mat_vec_def sum_list_upt)

lemma mat_vec_matmul:
  assumes A: "is_sq n A" and B: "is_sq n B" and v: "length v = n"
  shows "mat_vec (matmul A B) v = mat_vec A (mat_vec B v)"
proof (rule nth_equalityI)
  show "length (mat_vec (matmul A B) v) = length (mat_vec A (mat_vec B v))"
    using is_sq_dims [OF A] by (simp add: matmul_def)
next
  fix i assume "i < length (mat_vec (matmul A B) v)"
  then have i: "i < n" using is_sq_dims [OF A] by (simp add: matmul_def)
  have AB: "is_sq n (matmul A B)" using A B by simp
  have lb: "length (mat_vec B v) = n" using is_sq_dims [OF B] by simp
  have "mat_vec (matmul A B) v ! i = (\<Sum>k<n. matmul A B ! i ! k * v ! k)"
    by (rule nth_mat_vec [OF AB v i])
  also have "\<dots> = (\<Sum>k<n. (\<Sum>l<n. A ! i ! l * B ! l ! k) * v ! k)"
    by (rule sum.cong) (simp_all add: nth_matmul [OF A B i])
  also have "\<dots> = (\<Sum>k<n. \<Sum>l<n. A ! i ! l * (B ! l ! k * v ! k))"
    by (simp add: sum_distrib_right mult.assoc)
  also have "\<dots> = (\<Sum>l<n. \<Sum>k<n. A ! i ! l * (B ! l ! k * v ! k))"
    by (rule sum.swap)
  also have "\<dots> = (\<Sum>l<n. A ! i ! l * (\<Sum>k<n. B ! l ! k * v ! k))"
    by (simp add: sum_distrib_left)
  also have "\<dots> = (\<Sum>l<n. A ! i ! l * mat_vec B v ! l)"
    by (rule sum.cong) (simp_all add: nth_mat_vec [OF B v])
  also have "\<dots> = mat_vec A (mat_vec B v) ! i"
    by (rule nth_mat_vec [OF A lb i, symmetric])
  finally show "mat_vec (matmul A B) v ! i = mat_vec A (mat_vec B v) ! i" .
qed

section \<open>The cache of compiled durations: properties\<close>

lemma jit_search_None:
  "jit_search r ds = None \<longleftrightarrow> (\<forall>d \<in> set ds. \<not> jit_reusable r d)"
  by (induction ds) auto

lemma jit_search_Some_sorted:
  "sorted ds \<Longrightarrow> jit_search r ds = Some d \<Longrightarrow>
     d \<in> set ds \<and> jit_reusable r d \<and> (\<forall>e \<in> set ds. jit_reusable r e \<longrightarrow> d \<le> e)"
proof (induction ds)
  case Nil
  then show ?case by simp
next
  case (Cons a ds)
  show ?case
  proof (cases "jit_reusable r a")
    case True
    with Cons.prems show ?thesis by auto
  next
    case False
    with Cons.prems have s: "jit_search r ds = Some d" and so: "sorted ds" by auto
    from Cons.IH [OF so s] False show ?thesis by auto
  qed
qed

lemma jit_search_Min:
  assumes "jit_search r (sorted_list_of_fset C) = Some d"
  shows "d |\<in>| C \<and> jit_reusable r d \<and> d = Min {e. e |\<in>| C \<and> jit_reusable r e}"
proof -
  have "sorted (sorted_list_of_fset C)"
    by (simp add: sorted_list_of_fset.rep_eq)
  from jit_search_Some_sorted [OF this assms]
  have d: "d |\<in>| C" "jit_reusable r d" "\<forall>e. e |\<in>| C \<and> jit_reusable r e \<longrightarrow> d \<le> e"
    by auto
  have fin: "finite {e. e |\<in>| C \<and> jit_reusable r e}"
    by (rule finite_subset [of _ "fset C"]) auto
  have "Min {e. e |\<in>| C \<and> jit_reusable r e} = d"
    by (rule Min_eqI [OF fin]) (use d in auto)
  with d show ?thesis by simp
qed

text \<open>
  C9 (as amended): for a solver configured for pulse simulation (its \<^verbatim>\<open>_all_channels\<close> is
  a list) and every required duration \<open>r\<close>, \<^verbatim>\<open>_jit_shape(r)\<close> returns the number of channels
  paired with a duration: the smallest cached \<open>d\<close> with \<open>d * 0.2 < r \<le> d\<close> when the cache has
  one, the cache staying as it is; otherwise \<^verbatim>\<open>round(1.5 * r)\<close>, which is added to the
  cache. No entry of the cache is ever removed.
\<close>

theorem jit_shape_bucket_selection:
  assumes "all_channels self = Some chans"
  shows "(if \<exists>d. d |\<in>| jit_cache self \<and> jit_reusable r d
          then jit_shape self r =
                 (Inr (length chans, Min {d. d |\<in>| jit_cache self \<and> jit_reusable r d}), self)
          else jit_shape self r =
                 (Inr (length chans, py_round (JIT_DURATION_PADDING * of_int r)),
                  self\<lparr>jit_cache :=
                         finsert (py_round (JIT_DURATION_PADDING * of_int r)) (jit_cache self)\<rparr>))
         \<and> jit_cache self |\<subseteq>| jit_cache (snd (jit_shape self r))"
proof (cases "jit_search r (sorted_list_of_fset (jit_cache self))")
  case None
  then have "\<not> (\<exists>d. d |\<in>| jit_cache self \<and> jit_reusable r d)"
    by (simp add: jit_search_None)
  with None assms show ?thesis
    by (auto simp: jit_shape_def Let_def)
next
  case (Some d)
  from jit_search_Min [OF Some] Some assms show ?thesis
    by (auto simp: jit_shape_def Let_def)
qed

text \<open>
  The theorem at a cache of four durations and \<open>r = 100\<close>: \<open>120\<close> and \<open>150\<close> can be reused,
  and the smaller is returned.
\<close>

theorem jit_shape_bucket_selection_witness:
  "all_channels \<lparr>solver_model = (), rwa_signal_map = None, all_channels = Some [''d0''],
                  jit_cache = {|50, 150, 10000, 120|}\<rparr> = Some [''d0'']
   \<and> (\<exists>d. d |\<in>| {|50, 150, 10000, 120|} \<and> jit_reusable 100 d)
   \<and> jit_shape \<lparr>solver_model = (), rwa_signal_map = None, all_channels = Some [''d0''],
                 jit_cache = {|50, 150, 10000, 120|}\<rparr> 100
       = (Inr (1, Min {d. d |\<in>| {|50, 150, 10000, 120|} \<and> jit_reusable 100 d}),
          \<lparr>solver_model = (), rwa_signal_map = None, all_channels = Some [''d0''],
            jit_cache = {|50, 150, 10000, 120|}\<rparr>)
   \<and> Min {d. d |\<in>| {|50, 150, 10000, 120|} \<and> jit_reusable 100 d} = 120"
proof -
  let ?s = "\<lparr>solver_model = (), rwa_signal_map = None, all_channels = Some [''d0''],
             jit_cache = {|50, 150, 10000, 120|}\<rparr>"
  have ch: "all_channels ?s = Some [''d0'']" by simp
  have ex: "\<exists>d. d |\<in>| {|50, 150, 10000, 120|} \<and> jit_reusable 100 d"
    by (rule exI [of _ 120]) (simp add: jit_reusable_def JIT_MIN_PADDING_FRAC_def)
  have v: "fst (jit_shape ?s 100) = Inr (1, 120)" by code_simp
  from jit_shape_bucket_selection [OF ch, of 100] ex
  have eq: "jit_shape ?s 100
              = (Inr (1, Min {d. d |\<in>| {|50, 150, 10000, 120|} \<and> jit_reusable 100 d}), ?s)"
    by simp
  with v have "Min {d. d |\<in>| {|50, 150, 10000, 120|} \<and> jit_reusable 100 d} = 120" by simp
  with ch ex eq show ?thesis by simp
qed

text \<open>
  C9 as stated fails for a solver that is not configured for pulse simulation: the new
  duration \<open>15\<close> is added to the cache and then \<^verbatim>\<open>len(None)\<close> raises, so nothing is returned.
\<close>

theorem jit_shape_unconfigured_counterexample:
  "fst (jit_shape \<lparr>solver_model = (), rwa_signal_map = None, all_channels = None,
                    jit_cache = {||}\<rparr> 10)
     = Inl (TypeError ''object of type NoneType has no len()'')
   \<and> jit_cache (snd (jit_shape \<lparr>solver_model = (), rwa_signal_map = None, all_channels = None,
                                 jit_cache = {||}\<rparr> 10)) = {|15|}"
  by code_simp

text \<open>The example of the class documentation: durations \<open>50\<close> and \<open>10000\<close> are not reused for \<open>100\<close>.\<close>

lemma jit_shape_new_entry_example:
  "fst (jit_shape \<lparr>solver_model = (), rwa_signal_map = None, all_channels = Some [''d0''],
                    jit_cache = {|50, 10000|}\<rparr> 100) = Inr (1, 150)
   \<and> jit_cache (snd (jit_shape \<lparr>solver_model = (), rwa_signal_map = None,
                                 all_channels = Some [''d0''], jit_cache = {|50, 10000|}\<rparr> 100))
       = {|50, 150, 10000|}"
  by code_simp

section \<open>Frames and operator sums: algebra\<close>

lemma is_sq_scale [simp]: "is_sq n A \<Longrightarrow> is_sq n (mat_scale c A)"
  using is_sq_dims [of n A] by (simp add: mat_scale_def)

lemma is_sq_operator_sum: "is_sq n acc \<Longrightarrow> is_sq n (operator_sum acc cs As)"
  by (induction acc cs As rule: operator_sum.induct) simp_all

lemma phase_mat_vec:
  assumes A: "is_sq n A" and d: "length d = n" and v: "length v = n"
  shows "mat_vec (mk_mat n n (\<lambda>i j. exp (- (d ! i) * of_real t) * A ! i ! j * exp (d ! j * of_real t))) v
         = map (\<lambda>i. exp (- (d ! i) * of_real t)
                      * mat_vec A (map (\<lambda>i. exp (d ! i * of_real t) * v ! i) [0..<n]) ! i) [0..<n]"
    (is "mat_vec ?P v = map (\<lambda>i. ?em i * mat_vec A ?w ! i) [0..<n]")
proof (rule nth_equalityI)
  show "length (mat_vec ?P v) = length (map (\<lambda>i. ?em i * mat_vec A ?w ! i) [0..<n])"
    by simp
next
  fix i assume "i < length (mat_vec ?P v)"
  then have i: "i < n" by simp
  have P: "is_sq n ?P" by simp
  have w: "length ?w = n" by simp
  have "mat_vec ?P v ! i = (\<Sum>k<n. ?P ! i ! k * v ! k)"
    by (rule nth_mat_vec [OF P v i])
  also have "\<dots> = (\<Sum>k<n. ?em i * (A ! i ! k * ?w ! k))"
    by (rule sum.cong) (use i in \<open>simp_all add: mult.assoc\<close>)
  also have "\<dots> = ?em i * (\<Sum>k<n. A ! i ! k * ?w ! k)"
    by (simp add: sum_distrib_left)
  also have "\<dots> = ?em i * mat_vec A ?w ! i"
    by (simp only: nth_mat_vec [OF A w i])
  finally show "mat_vec ?P v ! i = map (\<lambda>i. ?em i * mat_vec A ?w ! i) [0..<n] ! i"
    using i by simp
qed

lemma frame_rhs_eq_generator_apply:
  assumes A: "is_sq n A" and fr: "frame_dims n fr" and y: "length y = n"
  shows "state_into_frame fr t (mat_vec A (state_out_of_frame fr t y ifb True)) True ifb
         = mat_vec (operator_into_frame fr t A True ifb) y"
proof (cases "frame_diag fr")
  case None
  then show ?thesis
    by (simp add: state_into_frame_def state_out_of_frame_def operator_into_frame_def)
next
  case (Some d)
  with fr obtain U where U: "frame_basis fr = Some U" "is_sq n U" and d: "length d = n"
    by (auto simp: frame_dims_def split: option.splits)
  let ?P = "mk_mat n n (\<lambda>i j. exp (- (d ! i) * of_real t) * A ! i ! j * exp (d ! j * of_real t))"
  have P: "is_sq n ?P" by simp
  have Ud: "is_sq n (mat_adjoint U)" using U by simp
  have core: "\<And>v. length v = n \<Longrightarrow>
      map (\<lambda>i. exp (- (d ! i) * of_real t)
                 * mat_vec A (map (\<lambda>i. exp (d ! i * of_real t) * v ! i) [0..<n]) ! i) [0..<n]
      = mat_vec ?P v"
    by (rule phase_mat_vec [OF A d, symmetric])
  show ?thesis
  proof (cases ifb)
    case True
    with Some d core [OF y] show ?thesis
      by (simp add: state_into_frame_def state_out_of_frame_def operator_into_frame_def)
  next
    case False
    have ly: "length (mat_vec (mat_adjoint U) y) = n"
      using is_sq_dims [OF Ud] by simp
    have "mat_vec (matmul (matmul U ?P) (mat_adjoint U)) y
            = mat_vec (matmul U ?P) (mat_vec (mat_adjoint U) y)"
      by (rule mat_vec_matmul [OF _ Ud y]) (use U P in simp)
    also have "\<dots> = mat_vec U (mat_vec ?P (mat_vec (mat_adjoint U) y))"
      by (rule mat_vec_matmul [OF U(2) P ly])
    finally have "mat_vec (matmul (matmul U ?P) (mat_adjoint U)) y
            = mat_vec U (mat_vec ?P (mat_vec (mat_adjoint U) y))" .
    with False Some d U core [OF ly] show ?thesis
      by (simp add: state_into_frame_def state_out_of_frame_def operator_into_frame_def
          state_into_frame_basis_def state_out_of_frame_basis_def operator_out_of_frame_basis_def)
  qed
qed

text \<open>
  C3: for a \<^verbatim>\<open>GeneratorModel\<close> with signals set, whose collection has a square drift of
  side \<open>n\<close> and whose frame has that dimension, for every time, every state vector of length
  \<open>n\<close> and both values of \<^verbatim>\<open>in_frame_basis\<close>, \<^verbatim>\<open>evaluate_generator\<close> returns a matrix
  \<open>G\<close> and \<^verbatim>\<open>evaluate_rhs\<close> returns the product of \<open>G\<close> and the state. Arithmetic is exact.
\<close>

theorem GeneratorModel_evaluate_rhs_eq_generator_apply:
  assumes "gm_signals self = Some sigs"
    and "gm_operator_collection self = Some coll" and "is_sq n (coll_drift coll)"
    and "gm_frame self = Some fr" and "frame_dims n fr"
    and "length y = n"
  shows "\<exists>G. GeneratorModel_evaluate_generator self t in_frame_basis = Inr G
             \<and> GeneratorModel_evaluate_rhs self t y in_frame_basis = Inr (mat_vec G y)"
proof -
  let ?A = "DenseOperatorCollection_call coll (SignalList_call sigs t)"
  have A: "is_sq n ?A"
    using assms(3) by (simp add: DenseOperatorCollection_call_def is_sq_operator_sum)
  from frame_rhs_eq_generator_apply [OF A assms(5,6)] assms(1,2,4) show ?thesis
    by (simp add: GeneratorModel_evaluate_generator_def GeneratorModel_evaluate_rhs_def Let_def)
qed

section \<open>Frame changes: the stored arrays\<close>

lemma out_of_into_frame_basis:
  assumes X: "is_sq n X" and fr: "frame_dims n fr" and un: "frame_unitary fr"
  shows "operator_out_of_frame_basis fr (operator_into_frame_basis fr X) = X"
proof (cases "frame_basis fr")
  case None
  then show ?thesis
    by (simp add: operator_out_of_frame_basis_def operator_into_frame_basis_def)
next
  case (Some U)
  with fr have U: "is_sq n U"
    by (auto simp: frame_dims_def split: option.splits)
  let ?V = "mat_adjoint U"
  have V: "is_sq n ?V" using U by simp
  have I: "matmul U ?V = np_eye n"
    using un Some is_sq_dims [OF U] by (simp add: frame_unitary_def)
  have VX: "is_sq n (matmul ?V X)" using V X by simp
  have "matmul U (matmul (matmul ?V X) U) = matmul (matmul U (matmul ?V X)) U"
    by (rule matmul_assoc [OF U VX U, symmetric])
  also have "matmul U (matmul ?V X) = matmul (matmul U ?V) X"
    by (rule matmul_assoc [OF U V X, symmetric])
  also have "\<dots> = X"
    by (simp add: I matmul_eye_left [OF X])
  finally have 1: "matmul U (matmul (matmul ?V X) U) = matmul X U" .
  have "matmul (matmul X U) ?V = matmul X (matmul U ?V)"
    by (rule matmul_assoc [OF X U V])
  also have "\<dots> = X"
    by (simp add: I matmul_eye_right [OF X])
  finally have 2: "matmul (matmul X U) ?V = X" .
  show ?thesis
    using Some 1 2 by (simp add: operator_out_of_frame_basis_def operator_into_frame_basis_def)
qed

lemma map_out_of_into_frame_basis:
  assumes "\<forall>A \<in> set As. is_sq n A" and "frame_dims n fr" and "frame_unitary fr"
  shows "map (operator_out_of_frame_basis fr) (map (operator_into_frame_basis fr) As) = As"
  using assms by (induction As) (simp_all add: out_of_into_frame_basis [of n])

lemma is_sq_into_frame_basis:
  "is_sq n X \<Longrightarrow> frame_dims n fr \<Longrightarrow> is_sq n (operator_into_frame_basis fr X)"
  by (auto simp: operator_into_frame_basis_def frame_dims_def split: option.splits)









lemma LindbladModel_store_drift_fields [simp]:
  "lm_drift (LindbladModel_store_drift s d) = d"
  "lm_hamiltonian_operators (LindbladModel_store_drift s d) = lm_hamiltonian_operators s"
  "lm_dissipator_operators (LindbladModel_store_drift s d) = lm_dissipator_operators s"
  "lm_frame (LindbladModel_store_drift s d) = lm_frame s"
  "lm_evaluation_mode (LindbladModel_store_drift s d) = lm_evaluation_mode s"
  "lm_operator_collection (LindbladModel_store_drift s d)
     = map_option (\<lambda>c. c\<lparr>lcoll_drift := d\<rparr>) (lm_operator_collection s)"
  by (simp_all add: LindbladModel_store_drift_def Let_def split: option.splits)


lemma LindbladModel_mode_set_updates [simp]:
  "LindbladModel_mode_set (LindbladModel_store_drift s d) = LindbladModel_mode_set s"
  "LindbladModel_mode_set (s\<lparr>lm_frame := fr\<rparr>) = LindbladModel_mode_set s"
  "LindbladModel_mode_set (s\<lparr>lm_hamiltonian_operators := hs\<rparr>) = LindbladModel_mode_set s"
  "LindbladModel_mode_set (s\<lparr>lm_dissipator_operators := ds\<rparr>) = LindbladModel_mode_set s"
  by (simp_all add: LindbladModel_mode_set_def split: option.splits)


lemma dissipator_update_case:
  "(case lm_dissipator_operators s of
      None \<Rightarrow> s
    | Some diss \<Rightarrow> s\<lparr>lm_dissipator_operators := Some (f diss)\<rparr>)
   = s\<lparr>lm_dissipator_operators := map_option f (lm_dissipator_operators s)\<rparr>"
  by (cases "lm_dissipator_operators s") simp_all





lemma GeneratorModel_drift_setter_fields [simp]:
  "gm_drift (GeneratorModel_drift_setter s (Some d)) = d"
  "gm_operators (GeneratorModel_drift_setter s nd) = gm_operators s"
  "gm_frame (GeneratorModel_drift_setter s nd) = gm_frame s"
  "gm_evaluation_mode (GeneratorModel_drift_setter s nd) = gm_evaluation_mode s"
  "gm_signals (GeneratorModel_drift_setter s nd) = gm_signals s"
  by (simp_all add: GeneratorModel_drift_setter_def Let_def split: option.splits)

lemma GeneratorModel_evaluation_mode_setter_fields [simp]:
  "gm_drift (snd (GeneratorModel_evaluation_mode_setter s m)) = gm_drift s"
  "gm_operators (snd (GeneratorModel_evaluation_mode_setter s m)) = gm_operators s"
  "gm_frame (snd (GeneratorModel_evaluation_mode_setter s m)) = gm_frame s"
  by (simp_all add: GeneratorModel_evaluation_mode_setter_def)

lemma GeneratorModel_frame_setter_from_unset:
  assumes "\<forall>fr. gm_frame s = Some fr \<longrightarrow> frame_diag fr = None"
  shows "gm_frame (snd (GeneratorModel_frame_setter s F)) = Some F"
    and "gm_operators (snd (GeneratorModel_frame_setter s F))
           = (case frame_diag F of
                None \<Rightarrow> gm_operators s
              | Some d \<Rightarrow> map (operator_into_frame_basis F) (gm_operators s))"
    and "gm_drift (snd (GeneratorModel_frame_setter s F))
           = (case frame_diag F of
                None \<Rightarrow> gm_drift s
              | Some d \<Rightarrow> mat_sub (operator_into_frame_basis F (gm_drift s)) (np_diag d))"
proof -
  have "gm_frame (snd (GeneratorModel_frame_setter s F)) = Some F
    \<and> gm_operators (snd (GeneratorModel_frame_setter s F))
           = (case frame_diag F of
                None \<Rightarrow> gm_operators s
              | Some d \<Rightarrow> map (operator_into_frame_basis F) (gm_operators s))
    \<and> gm_drift (snd (GeneratorModel_frame_setter s F))
           = (case frame_diag F of
                None \<Rightarrow> gm_drift s
              | Some d \<Rightarrow> mat_sub (operator_into_frame_basis F (gm_drift s)) (np_diag d))"
  proof (cases "gm_frame s")
    case None
    then show ?thesis
      by (cases "frame_diag F") (simp_all add: GeneratorModel_frame_setter_def Let_def split: sum.split)
  next
    case (Some fr)
    with assms have "frame_diag fr = None" by simp
    with Some show ?thesis
      by (cases "frame_diag F") (simp_all add: GeneratorModel_frame_setter_def Let_def split: sum.split)
  qed
  then show "gm_frame (snd (GeneratorModel_frame_setter s F)) = Some F"
    and "gm_operators (snd (GeneratorModel_frame_setter s F))
           = (case frame_diag F of
                None \<Rightarrow> gm_operators s
              | Some d \<Rightarrow> map (operator_into_frame_basis F) (gm_operators s))"
    and "gm_drift (snd (GeneratorModel_frame_setter s F))
           = (case frame_diag F of
                None \<Rightarrow> gm_drift s
              | Some d \<Rightarrow> mat_sub (operator_into_frame_basis F (gm_drift s)) (np_diag d))"
    by simp_all
qed

lemma GeneratorModel_frame_setter_to_none:
  assumes "gm_frame s = Some F"
  shows "gm_operators (snd (GeneratorModel_frame_setter s no_frame))
           = (case frame_diag F of
                None \<Rightarrow> gm_operators s
              | Some d \<Rightarrow> map (operator_out_of_frame_basis F) (gm_operators s))"
    and "gm_drift (snd (GeneratorModel_frame_setter s no_frame))
           = (case frame_diag F of
                None \<Rightarrow> gm_drift s
              | Some d \<Rightarrow> operator_out_of_frame_basis F (mat_add (gm_drift s) (np_diag d)))"
proof -
  have "gm_operators (snd (GeneratorModel_frame_setter s no_frame))
           = (case frame_diag F of
                None \<Rightarrow> gm_operators s
              | Some d \<Rightarrow> map (operator_out_of_frame_basis F) (gm_operators s))
    \<and> gm_drift (snd (GeneratorModel_frame_setter s no_frame))
           = (case frame_diag F of
                None \<Rightarrow> gm_drift s
              | Some d \<Rightarrow> operator_out_of_frame_basis F (mat_add (gm_drift s) (np_diag d)))"
  proof (cases "frame_diag F")
    case None
    with assms show ?thesis
      by (simp add: GeneratorModel_frame_setter_def Let_def no_frame_def split: sum.split)
  next
    case (Some d)
    with assms show ?thesis
      by (simp add: GeneratorModel_frame_setter_def Let_def no_frame_def split: sum.split)
  qed
  then show "gm_operators (snd (GeneratorModel_frame_setter s no_frame))
           = (case frame_diag F of
                None \<Rightarrow> gm_operators s
              | Some d \<Rightarrow> map (operator_out_of_frame_basis F) (gm_operators s))"
    and "gm_drift (snd (GeneratorModel_frame_setter s no_frame))
           = (case frame_diag F of
                None \<Rightarrow> gm_drift s
              | Some d \<Rightarrow> operator_out_of_frame_basis F (mat_add (gm_drift s) (np_diag d)))"
    by simp_all
qed

lemma GeneratorModel_set_unset:
  assumes un: "\<forall>fr. gm_frame s = Some fr \<longrightarrow> frame_diag fr = None"
    and ops: "\<forall>A \<in> set (gm_operators s). is_sq n A" and dr: "is_sq n (gm_drift s)"
    and F: "frame_dims n F" "frame_unitary F"
  shows "gm_operators (snd (GeneratorModel_frame_setter
                              (snd (GeneratorModel_frame_setter s F)) no_frame)) = gm_operators s
       \<and> gm_drift (snd (GeneratorModel_frame_setter
                              (snd (GeneratorModel_frame_setter s F)) no_frame)) = gm_drift s"
proof -
  let ?s1 = "snd (GeneratorModel_frame_setter s F)"
  note f1 = GeneratorModel_frame_setter_from_unset [OF un, of F]
  note f2 = GeneratorModel_frame_setter_to_none [OF f1(1)]
  show ?thesis
  proof (cases "frame_diag F")
    case None
    with f1 f2 show ?thesis by simp
  next
    case (Some d)
    have 1: "mat_add (mat_sub (operator_into_frame_basis F (gm_drift s)) (np_diag d)) (np_diag d)
               = operator_into_frame_basis F (gm_drift s)"
      by (rule mat_sub_add_cancel [of n]) (rule is_sq_into_frame_basis [OF dr F(1)])
    have 2: "operator_out_of_frame_basis F (operator_into_frame_basis F (gm_drift s)) = gm_drift s"
      by (rule out_of_into_frame_basis [OF dr F])
    have 3: "map (operator_out_of_frame_basis F) (map (operator_into_frame_basis F) (gm_operators s))
               = gm_operators s"
      by (rule map_out_of_into_frame_basis [OF ops F])
    from Some f1 f2 1 2 3 show ?thesis by simp
  qed
qed

lemma LindbladModel_rebuild_fields [simp]:
  "lm_drift (snd (LindbladModel_evaluation_mode_setter s m)) = lm_drift s"
  "lm_hamiltonian_operators (snd (LindbladModel_evaluation_mode_setter s m))
     = lm_hamiltonian_operators s"
  "lm_dissipator_operators (snd (LindbladModel_evaluation_mode_setter s m))
     = lm_dissipator_operators s"
  "lm_frame (snd (LindbladModel_evaluation_mode_setter s m)) = lm_frame s"
  by (simp_all add: LindbladModel_evaluation_mode_setter_def split: option.splits)

lemma LindbladModel_frame_setter_from_unset:
  assumes "\<forall>fr. lm_frame s = Some fr \<longrightarrow> frame_diag fr = None"
  shows "lm_frame (snd (LindbladModel_frame_setter s F)) = Some F"
    and "lm_hamiltonian_operators (snd (LindbladModel_frame_setter s F))
           = (case frame_diag F of
                None \<Rightarrow> lm_hamiltonian_operators s
              | Some d \<Rightarrow> map (operator_into_frame_basis F) (lm_hamiltonian_operators s))"
    and "lm_dissipator_operators (snd (LindbladModel_frame_setter s F))
           = (case frame_diag F of
                None \<Rightarrow> lm_dissipator_operators s
              | Some d \<Rightarrow> map_option (map (operator_into_frame_basis F))
                            (lm_dissipator_operators s))"
    and "lm_drift (snd (LindbladModel_frame_setter s F))
           = (case frame_diag F of
                None \<Rightarrow> lm_drift s
              | Some d \<Rightarrow> mat_sub (operator_into_frame_basis F (lm_drift s))
                           (np_diag (map (\<lambda>x. \<i> * x) d)))"
proof -
  have un: "(case lm_frame s of None \<Rightarrow> s
             | Some old \<Rightarrow> (case frame_diag old of None \<Rightarrow> s | Some d \<Rightarrow> X old d)) = s" for X
    using assms by (cases "lm_frame s") auto
  have "lm_frame (snd (LindbladModel_frame_setter s F)) = Some F
    \<and> lm_hamiltonian_operators (snd (LindbladModel_frame_setter s F))
           = (case frame_diag F of
                None \<Rightarrow> lm_hamiltonian_operators s
              | Some d \<Rightarrow> map (operator_into_frame_basis F) (lm_hamiltonian_operators s))
    \<and> lm_dissipator_operators (snd (LindbladModel_frame_setter s F))
           = (case frame_diag F of
                None \<Rightarrow> lm_dissipator_operators s
              | Some d \<Rightarrow> map_option (map (operator_into_frame_basis F))
                            (lm_dissipator_operators s))
    \<and> lm_drift (snd (LindbladModel_frame_setter s F))
           = (case frame_diag F of
                None \<Rightarrow> lm_drift s
              | Some d \<Rightarrow> mat_sub (operator_into_frame_basis F (lm_drift s))
                           (np_diag (map (\<lambda>x. \<i> * x) d)))"
  proof (cases "frame_diag F")
    case None
    then show ?thesis
      by (simp add: LindbladModel_frame_setter_def Let_def dissipator_update_case un)
  next
    case (Some d)
    then show ?thesis
      by (simp add: LindbladModel_frame_setter_def Let_def dissipator_update_case un)
  qed
  then show "lm_frame (snd (LindbladModel_frame_setter s F)) = Some F"
    and "lm_hamiltonian_operators (snd (LindbladModel_frame_setter s F))
           = (case frame_diag F of
                None \<Rightarrow> lm_hamiltonian_operators s
              | Some d \<Rightarrow> map (operator_into_frame_basis F) (lm_hamiltonian_operators s))"
    and "lm_dissipator_operators (snd (LindbladModel_frame_setter s F))
           = (case frame_diag F of
                None \<Rightarrow> lm_dissipator_operators s
              | Some d \<Rightarrow> map_option (map (operator_into_frame_basis F))
                            (lm_dissipator_operators s))"
    and "lm_drift (snd (LindbladModel_frame_setter s F))
           = (case frame_diag F of
                None \<Rightarrow> lm_drift s
              | Some d \<Rightarrow> mat_sub (operator_into_frame_basis F (lm_drift s))
                           (np_diag (map (\<lambda>x. \<i> * x) d)))"
    by simp_all
qed

lemma LindbladModel_frame_setter_to_none:
  assumes "lm_frame s = Some F"
  shows "lm_hamiltonian_operators (snd (LindbladModel_frame_setter s no_frame))
           = (case frame_diag F of
                None \<Rightarrow> lm_hamiltonian_operators s
              | Some d \<Rightarrow> map (operator_out_of_frame_basis F) (lm_hamiltonian_operators s))"
    and "lm_dissipator_operators (snd (LindbladModel_frame_setter s no_frame))
           = (case frame_diag F of
                None \<Rightarrow> lm_dissipator_operators s
              | Some d \<Rightarrow> map_option (map (operator_out_of_frame_basis F))
                            (lm_dissipator_operators s))"
    and "lm_drift (snd (LindbladModel_frame_setter s no_frame))
           = (case frame_diag F of
                None \<Rightarrow> lm_drift s
              | Some d \<Rightarrow> operator_out_of_frame_basis F
                           (mat_add (lm_drift s) (np_diag (map (\<lambda>x. \<i> * x) d))))"
proof -
  have "lm_hamiltonian_operators (snd (LindbladModel_frame_setter s no_frame))
           = (case frame_diag F of
                None \<Rightarrow> lm_hamiltonian_operators s
              | Some d \<Rightarrow> map (operator_out_of_frame_basis F) (lm_hamiltonian_operators s))
    \<and> lm_dissipator_operators (snd (LindbladModel_frame_setter s no_frame))
           = (case frame_diag F of
                None \<Rightarrow> lm_dissipator_operators s
              | Some d \<Rightarrow> map_option (map (operator_out_of_frame_basis F))
                            (lm_dissipator_operators s))
    \<and> lm_drift (snd (LindbladModel_frame_setter s no_frame))
           = (case frame_diag F of
                None \<Rightarrow> lm_drift s
              | Some d \<Rightarrow> operator_out_of_frame_basis F
                           (mat_add (lm_drift s) (np_diag (map (\<lambda>x. \<i> * x) d))))"
  proof (cases "frame_diag F")
    case None
    with assms show ?thesis
      by (simp add: LindbladModel_frame_setter_def Let_def no_frame_def dissipator_update_case)
  next
    case (Some d)
    with assms show ?thesis
      by (simp add: LindbladModel_frame_setter_def Let_def no_frame_def dissipator_update_case)
  qed
  then show "lm_hamiltonian_operators (snd (LindbladModel_frame_setter s no_frame))
           = (case frame_diag F of
                None \<Rightarrow> lm_hamiltonian_operators s
              | Some d \<Rightarrow> map (operator_out_of_frame_basis F) (lm_hamiltonian_operators s))"
    and "lm_dissipator_operators (snd (LindbladModel_frame_setter s no_frame))
           = (case frame_diag F of
                None \<Rightarrow> lm_dissipator_operators s
              | Some d \<Rightarrow> map_option (map (operator_out_of_frame_basis F))
                            (lm_dissipator_operators s))"
    and "lm_drift (snd (LindbladModel_frame_setter s no_frame))
           = (case frame_diag F of
                None \<Rightarrow> lm_drift s
              | Some d \<Rightarrow> operator_out_of_frame_basis F
                           (mat_add (lm_drift s) (np_diag (map (\<lambda>x. \<i> * x) d))))"
    by simp_all
qed

lemma LindbladModel_set_unset:
  assumes un: "\<forall>fr. lm_frame s = Some fr \<longrightarrow> frame_diag fr = None"
    and ops: "\<forall>A \<in> set (lm_hamiltonian_operators s). is_sq n A" and dr: "is_sq n (lm_drift s)"
    and dis: "\<forall>diss. lm_dissipator_operators s = Some diss \<longrightarrow> (\<forall>A \<in> set diss. is_sq n A)"
    and F: "frame_dims n F" "frame_unitary F"
  shows "lm_hamiltonian_operators (snd (LindbladModel_frame_setter
            (snd (LindbladModel_frame_setter s F)) no_frame)) = lm_hamiltonian_operators s
       \<and> lm_dissipator_operators (snd (LindbladModel_frame_setter
            (snd (LindbladModel_frame_setter s F)) no_frame)) = lm_dissipator_operators s
       \<and> lm_drift (snd (LindbladModel_frame_setter
            (snd (LindbladModel_frame_setter s F)) no_frame)) = lm_drift s"
proof -
  note f1 = LindbladModel_frame_setter_from_unset [OF un, of F]
  note f2 = LindbladModel_frame_setter_to_none [OF f1(1)]
  show ?thesis
  proof (cases "frame_diag F")
    case None
    with f1 f2 show ?thesis by simp
  next
    case (Some d)
    let ?D = "np_diag (map (\<lambda>x. \<i> * x) d)"
    have 1: "mat_add (mat_sub (operator_into_frame_basis F (lm_drift s)) ?D) ?D
               = operator_into_frame_basis F (lm_drift s)"
      by (rule mat_sub_add_cancel [of n]) (rule is_sq_into_frame_basis [OF dr F(1)])
    have 2: "operator_out_of_frame_basis F (operator_into_frame_basis F (lm_drift s)) = lm_drift s"
      by (rule out_of_into_frame_basis [OF dr F])
    have 3: "map (operator_out_of_frame_basis F)
               (map (operator_into_frame_basis F) (lm_hamiltonian_operators s))
               = lm_hamiltonian_operators s"
      by (rule map_out_of_into_frame_basis [OF ops F])
    have 4: "map_option (map (operator_out_of_frame_basis F))
               (map_option (map (operator_into_frame_basis F)) (lm_dissipator_operators s))
               = lm_dissipator_operators s"
    proof (cases "lm_dissipator_operators s")
      case (Some diss)
      with dis have "\<forall>A \<in> set diss. is_sq n A" by simp
      from map_out_of_into_frame_basis [OF this F] Some show ?thesis by simp
    qed simp
    from Some f1 f2 1 2 3 4 show ?thesis by simp
  qed
qed

section \<open>Evaluation, modes and signals\<close>

lemma GeneratorModel_init_SigNone:
  "GeneratorModel_init operators drift SigNone frame mode = Inr self \<Longrightarrow> gm_signals self = None"
  by (auto simp: GeneratorModel_init_def GeneratorModel_signals_setter_def Let_def
           split: prod.splits option.splits)

text \<open>
  C7: a \<^verbatim>\<open>GeneratorModel\<close> whose signals are \<^verbatim>\<open>None\<close>, because \<^verbatim>\<open>None\<close> was assigned or
  because it was constructed without signals, raises \<^verbatim>\<open>QiskitError\<close> from
  \<^verbatim>\<open>evaluate_generator\<close> and from \<^verbatim>\<open>evaluate_rhs\<close>, at every time and state.
\<close>

theorem GeneratorModel_evaluate_without_signals:
  assumes "gm_signals self = None
           \<or> self = snd (GeneratorModel_signals_setter self0 SigNone)
           \<or> GeneratorModel_init operators drift SigNone frame mode = Inr self"
  shows "GeneratorModel_evaluate_generator self t in_frame_basis
           = Inl (QiskitError ''GeneratorModel cannot be evaluated without signals.'')
         \<and> GeneratorModel_evaluate_rhs self t y in_frame_basis
           = Inl (QiskitError ''GeneratorModel cannot be evaluated without signals.'')"
proof -
  from assms have "gm_signals self = None"
    by (auto simp: GeneratorModel_signals_setter_def dest: GeneratorModel_init_SigNone)
  then show ?thesis
    by (simp add: GeneratorModel_evaluate_generator_def GeneratorModel_evaluate_rhs_def)
qed

lemma GeneratorModel_init_qubit_example:
  "GeneratorModel_init [[[0, 1], [1, 0]]] (Some [[1, 0], [0, -1]]) SigNone no_frame
       ''dense_operator_collection''
     = Inr \<lparr>gm_operators = [[[0, 1], [1, 0]]], gm_drift = [[1, 0], [0, -1]],
            gm_operator_collection =
              Some \<lparr>coll_operators = [[[0, 1], [1, 0]]], coll_drift = [[1, 0], [0, -1]]\<rparr>,
            gm_evaluation_mode = Some ''dense_operator_collection'',
            gm_frame = Some no_frame, gm_signals = None\<rparr>"
  by (simp add: GeneratorModel_init_def GeneratorModel_drift_setter_def
      GeneratorModel_evaluation_mode_setter_def GeneratorModel_frame_setter_def
      GeneratorModel_evaluation_mode_def GeneratorModel_signals_setter_def no_frame_def)

lemmas GeneratorModel_defs = GeneratorModel_init_def GeneratorModel_drift_setter_def
      GeneratorModel_evaluation_mode_setter_def GeneratorModel_frame_setter_def
      GeneratorModel_evaluation_mode_def GeneratorModel_signals_setter_def

text \<open>
  C5 fails on the code for \<^verbatim>\<open>GeneratorModel\<close>: assigning the unsupported mode
  \<^verbatim>\<open>"sparse"\<close> raises nothing and leaves the model as it was.
\<close>

theorem GeneratorModel_unsupported_mode_silent:
  "GeneratorModel_evaluation_mode_setter self ''sparse'' = (None, self)"
  by (simp add: GeneratorModel_evaluation_mode_setter_def)

lemma GeneratorModel_evaluation_mode_setter_never_raises:
  "fst (GeneratorModel_evaluation_mode_setter self new_mode) = None"
  by (simp add: GeneratorModel_evaluation_mode_setter_def)

lemma GeneratorModel_evaluation_mode_setter_unsupported:
  "new_mode \<noteq> ''dense_operator_collection'' \<Longrightarrow>
     GeneratorModel_evaluation_mode_setter self new_mode = (None, self)"
  by (simp add: GeneratorModel_evaluation_mode_setter_def)

lemma with_signal_assignment_body_raises:
  assumes "signal_assignment_enter mi self signals = ((None, self1), old_signals)"
    and "body self1 = (Inl e, self2)"
  shows "with_signal_assignment mi self signals body = (Inl e, self2)"
  using assms by (simp add: with_signal_assignment_def)

lemma with_signal_assignment_body_returns:
  assumes "signal_assignment_enter mi self signals = ((None, self1), old_signals)"
    and "body self1 = (Inr r, self2)"
    and "signal_assignment_exit mi self2 old_signals = (None, self3)"
  shows "with_signal_assignment mi self signals body = (Inr r, self3)"
  using assms by (simp add: with_signal_assignment_def)

text \<open>
  C4 fails on the code: when the body of \<^verbatim>\<open>with self.signal_assignment(signals)\<close> raises,
  the model keeps the assigned signals. Here the model has no signals before, the signals
  \<open>[1]\<close> are assigned and the body raises: afterwards the model's signals are \<open>[1]\<close>, not
  \<^verbatim>\<open>None\<close>.
\<close>

theorem signal_assignment_not_restored_on_exception:
  "with_signal_assignment GeneratorModel_interface
     \<lparr>solver_model =
        \<lparr>gm_operators = [[[0, 1], [1, 0]]], gm_drift = [[1, 0], [0, -1]],
         gm_operator_collection =
           Some \<lparr>coll_operators = [[[0, 1], [1, 0]]], coll_drift = [[1, 0], [0, -1]]\<rparr>,
         gm_evaluation_mode = Some ''dense_operator_collection'',
         gm_frame = Some no_frame, gm_signals = None\<rparr>,
      rwa_signal_map = None, all_channels = None, jit_cache = {||}\<rparr>
     (SigList [\<lambda>t. 1])
     (\<lambda>self. (Inl (Exception ''integration failed'') :: error + unit, self))
   = (Inl (Exception ''integration failed''),
      \<lparr>solver_model =
        \<lparr>gm_operators = [[[0, 1], [1, 0]]], gm_drift = [[1, 0], [0, -1]],
         gm_operator_collection =
           Some \<lparr>coll_operators = [[[0, 1], [1, 0]]], coll_drift = [[1, 0], [0, -1]]\<rparr>,
         gm_evaluation_mode = Some ''dense_operator_collection'',
         gm_frame = Some no_frame, gm_signals = Some [\<lambda>t. 1]\<rparr>,
      rwa_signal_map = None, all_channels = None, jit_cache = {||}\<rparr>)"
  by (simp add: with_signal_assignment_def signal_assignment_enter_def GeneratorModel_interface_def
      GeneratorModel_signals_setter_def GeneratorModel_signals_def num_operators_def)

text \<open>
  C10 fails on the code: \<^verbatim>\<open>solve\<close> hands the caller's density matrix to the integrator,
  not the identity that \<^verbatim>\<open>validate_and_format_initial_state\<close> returned. With an integrator
  that returns its initial state (a time span of length zero, where the propagator is the
  identity) and the initial state \<open>\<rho> = 1/2\<close>, the result is \<open>\<rho> \<rho> \<rho>\<^sup>\<dagger> = 1/8\<close>, not \<open>\<rho>\<close>.
\<close>

theorem solve_integrates_the_density_matrix_itself:
  "fst (solve_single GeneratorModel_interface
          (\<lambda>model t_span y0. Inr (t_span, [fst (initial_state_converter y0)]))
          \<lparr>solver_model =
             \<lparr>gm_operators = [[[0, 1], [1, 0]]], gm_drift = [[1, 0], [0, -1]],
              gm_operator_collection =
                Some \<lparr>coll_operators = [[[0, 1], [1, 0]]], coll_drift = [[1, 0], [0, -1]]\<rparr>,
              gm_evaluation_mode = Some ''dense_operator_collection'',
              gm_frame = Some no_frame, gm_signals = None\<rparr>,
           rwa_signal_map = None, all_channels = None, jit_cache = {||}\<rparr>
          [0, 0] (DensityMatrix [[1 / 2, 0], [0, 1 / 2]]) (SigList [\<lambda>t. 1]))
     = Inr ([0, 0], [Mat [[1 / 8, 0], [0, 1 / 8]]])"
  by (simp add: solve_single_def validate_and_format_initial_state_def initial_state_converter_def
      is_lindblad_model_not_vectorized_def is_lindblad_model_vectorized_def
      with_signal_assignment_def signal_assignment_enter_def signal_assignment_exit_def
      GeneratorModel_interface_def GeneratorModel_signals_setter_def GeneratorModel_signals_def
      num_operators_def hilbert_space_dimension_def format_final_states_def shape0_def
      nrows_def ncols_def mk_mat_def matmul_def mat_adjoint_def np_eye_def Let_def)

section \<open>Frames and evaluation: main results\<close>

lemmas array_defs = nrows_def ncols_def mk_mat_def matmul_def mat_add_def mat_sub_def
  mat_scale_def mat_adjoint_def mat_vec_def np_diag_def np_eye_def np_zeros_def is_sq_def

lemmas frame_defs = frame_dims_def frame_unitary_def diagonal_frame_def no_frame_def
  operator_into_frame_basis_def operator_out_of_frame_basis_def

lemma swap_frame_wf:
  "frame_dims 2 \<lparr>frame_diag = Some [\<i>, - \<i>], frame_basis = Some [[0, 1], [1, 0]]\<rparr>
   \<and> frame_unitary \<lparr>frame_diag = Some [\<i>, - \<i>], frame_basis = Some [[0, 1], [1, 0]]\<rparr>"
  by (simp add: frame_defs array_defs)



text \<open>
  C2 (as amended): for a \<^verbatim>\<open>GeneratorModel\<close> and a \<^verbatim>\<open>LindbladModel\<close> that have no frame set
  and store square arrays, assigning a frame with a unitary basis and then assigning
  \<^verbatim>\<open>None\<close> leaves the stored operators, dissipators and drift as they were. Arithmetic is
  exact.
\<close>

theorem frame_set_then_unset_restores:
  assumes "\<forall>fr. gm_frame g = Some fr \<longrightarrow> frame_diag fr = None"
    and "\<forall>A \<in> set (gm_operators g). is_sq n A" and "is_sq n (gm_drift g)"
    and "\<forall>fr. lm_frame l = Some fr \<longrightarrow> frame_diag fr = None"
    and "\<forall>A \<in> set (lm_hamiltonian_operators l). is_sq n A" and "is_sq n (lm_drift l)"
    and "\<forall>diss. lm_dissipator_operators l = Some diss \<longrightarrow> (\<forall>A \<in> set diss. is_sq n A)"
    and "frame_dims n F" and "frame_unitary F"
  shows "gm_operators (snd (GeneratorModel_frame_setter
                              (snd (GeneratorModel_frame_setter g F)) no_frame)) = gm_operators g
       \<and> gm_drift (snd (GeneratorModel_frame_setter
                              (snd (GeneratorModel_frame_setter g F)) no_frame)) = gm_drift g
       \<and> lm_hamiltonian_operators (snd (LindbladModel_frame_setter
            (snd (LindbladModel_frame_setter l F)) no_frame)) = lm_hamiltonian_operators l
       \<and> lm_dissipator_operators (snd (LindbladModel_frame_setter
            (snd (LindbladModel_frame_setter l F)) no_frame)) = lm_dissipator_operators l
       \<and> lm_drift (snd (LindbladModel_frame_setter
            (snd (LindbladModel_frame_setter l F)) no_frame)) = lm_drift l"
  using GeneratorModel_set_unset [OF assms(1,2,3,8,9)]
    LindbladModel_set_unset [OF assms(4,5,6,7,8,9)]
  by simp

text \<open>C2 for a qubit model without a frame and the frame with eigenvalues \<open>\<i>, -\<i>\<close>.\<close>

theorem frame_set_then_unset_restores_witness:
  "gm_operators (snd (GeneratorModel_frame_setter
      (snd (GeneratorModel_frame_setter
         \<lparr>gm_operators = [[[0, 1], [1, 0]]], gm_drift = [[1, 0], [0, -1]],
          gm_operator_collection =
            Some \<lparr>coll_operators = [[[0, 1], [1, 0]]], coll_drift = [[1, 0], [0, -1]]\<rparr>,
          gm_evaluation_mode = Some ''dense_operator_collection'',
          gm_frame = Some no_frame, gm_signals = None\<rparr>
         \<lparr>frame_diag = Some [\<i>, - \<i>], frame_basis = Some [[0, 1], [1, 0]]\<rparr>)) no_frame))
     = [[[0, 1], [1, 0]]]
   \<and> gm_drift (snd (GeneratorModel_frame_setter
      (snd (GeneratorModel_frame_setter
         \<lparr>gm_operators = [[[0, 1], [1, 0]]], gm_drift = [[1, 0], [0, -1]],
          gm_operator_collection =
            Some \<lparr>coll_operators = [[[0, 1], [1, 0]]], coll_drift = [[1, 0], [0, -1]]\<rparr>,
          gm_evaluation_mode = Some ''dense_operator_collection'',
          gm_frame = Some no_frame, gm_signals = None\<rparr>
         \<lparr>frame_diag = Some [\<i>, - \<i>], frame_basis = Some [[0, 1], [1, 0]]\<rparr>)) no_frame))
     = [[1, 0], [0, -1]]
   \<and> lm_drift (snd (LindbladModel_frame_setter
      (snd (LindbladModel_frame_setter
         \<lparr>lm_hamiltonian_operators = [[[0, 1], [1, 0]]], lm_drift = [[1, 0], [0, -1]],
          lm_dissipator_operators = Some [[[0, 1], [0, 0]]],
          lm_hamiltonian_signals = PySignalList [\<lambda>t. 1],
          lm_dissipator_signals = PySignalList [\<lambda>t. 1],
          lm_frame = Some no_frame, lm_evaluation_mode = None,
          lm_operator_collection = None, lm_vectorized_operators = None\<rparr>
         \<lparr>frame_diag = Some [\<i>, - \<i>], frame_basis = Some [[0, 1], [1, 0]]\<rparr>)) no_frame))
     = [[1, 0], [0, -1]]"
proof -
  let ?g = "\<lparr>gm_operators = [[[0, 1], [1, 0]]], gm_drift = [[1, 0], [0, -1]],
          gm_operator_collection =
            Some \<lparr>coll_operators = [[[0, 1], [1, 0]]], coll_drift = [[1, 0], [0, -1]]\<rparr>,
          gm_evaluation_mode = Some ''dense_operator_collection'',
          gm_frame = Some no_frame, gm_signals = None\<rparr>"
  let ?l = "\<lparr>lm_hamiltonian_operators = [[[0, 1], [1, 0]]], lm_drift = [[1, 0], [0, -1]],
          lm_dissipator_operators = Some [[[0, 1], [0, 0]]],
          lm_hamiltonian_signals = PySignalList [\<lambda>t. 1],
          lm_dissipator_signals = PySignalList [\<lambda>t. 1],
          lm_frame = Some no_frame, lm_evaluation_mode = None,
          lm_operator_collection = None, lm_vectorized_operators = None\<rparr>"
  have h1: "\<forall>fr. gm_frame ?g = Some fr \<longrightarrow> frame_diag fr = None"
    by (simp add: no_frame_def)
  have h2: "\<forall>A \<in> set (gm_operators ?g). is_sq 2 A" by (simp add: is_sq_def)
  have h3: "is_sq 2 (gm_drift ?g)" by (simp add: is_sq_def)
  have h4: "\<forall>fr. lm_frame ?l = Some fr \<longrightarrow> frame_diag fr = None"
    by (simp add: no_frame_def)
  have h5: "\<forall>A \<in> set (lm_hamiltonian_operators ?l). is_sq 2 A" by (simp add: is_sq_def)
  have h6: "is_sq 2 (lm_drift ?l)" by (simp add: is_sq_def)
  have h7: "\<forall>diss. lm_dissipator_operators ?l = Some diss \<longrightarrow> (\<forall>A \<in> set diss. is_sq 2 A)"
    by (simp add: is_sq_def)
  from frame_set_then_unset_restores [OF h1 h2 h3 h4 h5 h6 h7
      swap_frame_wf [THEN conjunct1] swap_frame_wf [THEN conjunct2]]
  show ?thesis by simp
qed

text \<open>
  C2 as stated, for a model in any initial state, fails when the model already has a frame:
  a model built with drift \<open>\<sigma>\<^sub>z\<close> in the frame \<open>diag(\<i>, -\<i>)\<close> stores the drift
  \<open>\<sigma>\<^sub>z - diag(\<i>, -\<i>)\<close>; after another frame is set and then unset it stores \<open>\<sigma>\<^sub>z\<close>.
\<close>

theorem frame_set_then_unset_framed_counterexample:
  "gm_drift (snd (GeneratorModel_frame_setter
      (snd (GeneratorModel_frame_setter
         \<lparr>gm_operators = [[[0, 1], [1, 0]]], gm_drift = [[1 - \<i>, 0], [0, -1 + \<i>]],
          gm_operator_collection =
            Some \<lparr>coll_operators = [[[0, 1], [1, 0]]],
                  coll_drift = [[1 - \<i>, 0], [0, -1 + \<i>]]\<rparr>,
          gm_evaluation_mode = Some ''dense_operator_collection'',
          gm_frame = Some (diagonal_frame [\<i>, - \<i>]), gm_signals = None\<rparr>
         (diagonal_frame [2 * \<i>, 0]))) no_frame))
     = [[1, 0], [0, -1]]
   \<and> [[1, 0], [0, -1]] \<noteq> [[1 - \<i>, 0], [0, -1 + \<i>]]"
  by (simp add: GeneratorModel_frame_setter_def GeneratorModel_drift_setter_def
      GeneratorModel_evaluation_mode_def GeneratorModel_evaluation_mode_setter_def
      frame_defs array_defs Let_def complex_eq_iff)

text \<open>The model of the counterexample is the one the constructor builds.\<close>

lemma framed_model_from_init:
  "GeneratorModel_init [[[0, 1], [1, 0]]] (Some [[1, 0], [0, -1]]) SigNone
       (diagonal_frame [\<i>, - \<i>]) ''dense_operator_collection''
     = Inr \<lparr>gm_operators = [[[0, 1], [1, 0]]], gm_drift = [[1 - \<i>, 0], [0, -1 + \<i>]],
          gm_operator_collection =
            Some \<lparr>coll_operators = [[[0, 1], [1, 0]]],
                  coll_drift = [[1 - \<i>, 0], [0, -1 + \<i>]]\<rparr>,
          gm_evaluation_mode = Some ''dense_operator_collection'',
          gm_frame = Some (diagonal_frame [\<i>, - \<i>]), gm_signals = None\<rparr>"
  by (simp add: GeneratorModel_init_def GeneratorModel_frame_setter_def
      GeneratorModel_drift_setter_def GeneratorModel_signals_setter_def
      GeneratorModel_evaluation_mode_def GeneratorModel_evaluation_mode_setter_def
      frame_defs array_defs Let_def)

text \<open>C3 for a qubit model in the frame with eigenvalues \<open>\<i>, -\<i>\<close>, at time \<open>1/2\<close>.\<close>

theorem GeneratorModel_evaluate_rhs_eq_generator_apply_witness:
  "is_sq 2 [[1 - \<i>, 0], [0, -1 + \<i>]]
   \<and> frame_dims 2 \<lparr>frame_diag = Some [\<i>, - \<i>], frame_basis = Some [[0, 1], [1, 0]]\<rparr>
   \<and> length [1, 0 :: complex] = 2
   \<and> (\<exists>G. GeneratorModel_evaluate_generator
              \<lparr>gm_operators = [[[0, 1], [1, 0]]], gm_drift = [[1 - \<i>, 0], [0, -1 + \<i>]],
               gm_operator_collection =
                 Some \<lparr>coll_operators = [[[0, 1], [1, 0]]],
                       coll_drift = [[1 - \<i>, 0], [0, -1 + \<i>]]\<rparr>,
               gm_evaluation_mode = Some ''dense_operator_collection'',
               gm_frame = Some \<lparr>frame_diag = Some [\<i>, - \<i>],
                                frame_basis = Some [[0, 1], [1, 0]]\<rparr>,
               gm_signals = Some [\<lambda>t. of_real t]\<rparr> (1 / 2) False = Inr G
          \<and> GeneratorModel_evaluate_rhs
              \<lparr>gm_operators = [[[0, 1], [1, 0]]], gm_drift = [[1 - \<i>, 0], [0, -1 + \<i>]],
               gm_operator_collection =
                 Some \<lparr>coll_operators = [[[0, 1], [1, 0]]],
                       coll_drift = [[1 - \<i>, 0], [0, -1 + \<i>]]\<rparr>,
               gm_evaluation_mode = Some ''dense_operator_collection'',
               gm_frame = Some \<lparr>frame_diag = Some [\<i>, - \<i>],
                                frame_basis = Some [[0, 1], [1, 0]]\<rparr>,
               gm_signals = Some [\<lambda>t. of_real t]\<rparr> (1 / 2) [1, 0] False
              = Inr (mat_vec G [1, 0]))"
proof -
  let ?g = "\<lparr>gm_operators = [[[0, 1], [1, 0]]], gm_drift = [[1 - \<i>, 0], [0, -1 + \<i>]],
               gm_operator_collection =
                 Some \<lparr>coll_operators = [[[0, 1], [1, 0]]],
                       coll_drift = [[1 - \<i>, 0], [0, -1 + \<i>]]\<rparr>,
               gm_evaluation_mode = Some ''dense_operator_collection'',
               gm_frame = Some \<lparr>frame_diag = Some [\<i>, - \<i>],
                                frame_basis = Some [[0, 1], [1, 0]]\<rparr>,
               gm_signals = Some [\<lambda>t. of_real t]\<rparr>"
  have h1: "gm_signals ?g = Some [\<lambda>t. of_real t]" by simp
  have h2: "gm_operator_collection ?g
              = Some \<lparr>coll_operators = [[[0, 1], [1, 0]]],
                      coll_drift = [[1 - \<i>, 0], [0, -1 + \<i>]]\<rparr>" by simp
  have h3: "is_sq 2 (coll_drift \<lparr>coll_operators = [[[0, 1], [1, 0]]],
                      coll_drift = [[1 - \<i>, 0], [0, -1 + \<i>]]\<rparr>)"
    by (simp add: is_sq_def)
  have h4: "gm_frame ?g = Some \<lparr>frame_diag = Some [\<i>, - \<i>],
                                frame_basis = Some [[0, 1], [1, 0]]\<rparr>" by simp
  have h6: "length [1, 0 :: complex] = 2" by simp
  from GeneratorModel_evaluate_rhs_eq_generator_apply
         [OF h1 h2 h3 h4 swap_frame_wf [THEN conjunct1] h6, of "1 / 2" False]
  show ?thesis using h3 swap_frame_wf by simp
qed

text \<open>C7 for the qubit model constructed without signals.\<close>

theorem GeneratorModel_evaluate_without_signals_witness:
  "GeneratorModel_init [[[0, 1], [1, 0]]] (Some [[1, 0], [0, -1]]) SigNone no_frame
       ''dense_operator_collection''
     = Inr \<lparr>gm_operators = [[[0, 1], [1, 0]]], gm_drift = [[1, 0], [0, -1]],
            gm_operator_collection =
              Some \<lparr>coll_operators = [[[0, 1], [1, 0]]], coll_drift = [[1, 0], [0, -1]]\<rparr>,
            gm_evaluation_mode = Some ''dense_operator_collection'',
            gm_frame = Some no_frame, gm_signals = None\<rparr>
   \<and> GeneratorModel_evaluate_generator
        \<lparr>gm_operators = [[[0, 1], [1, 0]]], gm_drift = [[1, 0], [0, -1]],
         gm_operator_collection =
           Some \<lparr>coll_operators = [[[0, 1], [1, 0]]], coll_drift = [[1, 0], [0, -1]]\<rparr>,
         gm_evaluation_mode = Some ''dense_operator_collection'',
         gm_frame = Some no_frame, gm_signals = None\<rparr> 0 False
       = Inl (QiskitError ''GeneratorModel cannot be evaluated without signals.'')
   \<and> GeneratorModel_evaluate_rhs
        \<lparr>gm_operators = [[[0, 1], [1, 0]]], gm_drift = [[1, 0], [0, -1]],
         gm_operator_collection =
           Some \<lparr>coll_operators = [[[0, 1], [1, 0]]], coll_drift = [[1, 0], [0, -1]]\<rparr>,
         gm_evaluation_mode = Some ''dense_operator_collection'',
         gm_frame = Some no_frame, gm_signals = None\<rparr> 0 [1, 0] False
       = Inl (QiskitError ''GeneratorModel cannot be evaluated without signals.'')"
proof -
  have i: "GeneratorModel_init [[[0, 1], [1, 0]]] (Some [[1, 0], [0, -1]]) SigNone no_frame
       ''dense_operator_collection''
     = Inr \<lparr>gm_operators = [[[0, 1], [1, 0]]], gm_drift = [[1, 0], [0, -1]],
            gm_operator_collection =
              Some \<lparr>coll_operators = [[[0, 1], [1, 0]]], coll_drift = [[1, 0], [0, -1]]\<rparr>,
            gm_evaluation_mode = Some ''dense_operator_collection'',
            gm_frame = Some no_frame, gm_signals = None\<rparr>"
    by (rule GeneratorModel_init_qubit_example)
  from GeneratorModel_evaluate_without_signals [OF disjI2 [OF disjI2 [OF i]], of 0 False "[1, 0]"] i
  show ?thesis by simp
qed

section \<open>Initial states, final states and the signal context\<close>

text \<open>
  On their own the two functions do what the documentation of \<^verbatim>\<open>solve\<close> describes: for a
  density matrix or a channel with a Hamiltonian model the state to integrate is the
  identity, and a trajectory of propagators \<open>U\<close> is turned into \<open>U \<rho> U\<^sup>\<dagger>\<close>, or into the
  superoperator of \<open>U\<close> composed with the initial one.
\<close>

lemma validate_substitutes_identity:
  assumes "model_class_of mi model = HamiltonianModelClass"
  shows "validate_and_format_initial_state mi (DensityMatrix rho) model
           = Inr (Mat (np_eye (model_dim mi model)), Mat rho, Some DensityMatrixClass)"
    and "validate_and_format_initial_state mi (QuantumChannel S) model
           = Inr (Mat (np_eye (model_dim mi model)), Mat S, Some SuperOpClass)"
  using assms
  by (simp_all add: validate_and_format_initial_state_def initial_state_converter_def
      is_lindblad_model_not_vectorized_def is_lindblad_model_vectorized_def shape0_def
      np_eye_def)

lemma format_final_states_from_propagator:
  assumes "model_class_of mi model = HamiltonianModelClass"
  shows "format_final_states mi [Mat U] model (Mat rho) (Some DensityMatrixClass)
           = Inr [Mat (matmul (matmul U rho) (mat_adjoint U))]"
    and "format_final_states mi [Mat U] model (Mat S) (Some SuperOpClass)
           = Inr [Mat (matmul (unitary_superop U) S)]"
  using assms by (simp_all add: format_final_states_def)

text \<open>
  Entering the context assigns the given signals, and a body that returns leaves the model
  with the signals it had before.
\<close>

lemma signal_assignment_enter_assigns:
  assumes "rwa_signal_map self = None"
    and "model_class_of mi (solver_model self) = HamiltonianModelClass"
    and "model_signals_setter mi (solver_model self) signals = (None, m)"
  shows "signal_assignment_enter mi self signals
           = ((None, self\<lparr>solver_model := m\<rparr>), model_signals mi (solver_model self))"
  using assms by (simp add: signal_assignment_enter_def)

lemma GeneratorModel_signal_assignment_restores_on_return:
  assumes "gm_operator_collection g = Some coll" and "length sigs = num_operators coll"
    and "\<forall>old. gm_signals g = Some old \<longrightarrow> length old = num_operators coll"
    and "rwa_signal_map self = None" and "solver_model self = g"
  shows "with_signal_assignment GeneratorModel_interface self (SigList sigs)
           (\<lambda>s. (Inr r, s)) = (Inr r, self)"
  using assms
  by (cases "gm_signals g")
     (simp_all add: with_signal_assignment_def signal_assignment_enter_def
        signal_assignment_exit_def GeneratorModel_interface_def GeneratorModel_signals_def
        GeneratorModel_signals_setter_def)

section \<open>The frame invariant\<close>






section \<open>Signals and operators: lengths\<close>





text \<open>
  The setter stores any pair; and no call of the class \<^verbatim>\<open>LindbladModel\<close> itself returns a
  model, whatever the lengths.
\<close>

lemma LindbladModel_signals_setter_no_length_check:
  "LindbladModel_signals_setter self (PyTuple [a, b])
     = (None, self\<lparr>lm_hamiltonian_signals := a, lm_dissipator_signals := b\<rparr>)"
  by (simp add: LindbladModel_signals_setter_def unpack_pair_def)

lemma LindbladModel_init_raises:
  "\<exists>e. LindbladModel_init hops hsigs dops dsigs drift frame mode = Inl e"
  by (simp add: LindbladModel_init_def)

section \<open>The generator of a Lindblad model\<close>





end
